theory Spec2Isabelle
  imports Main "HOL-Library.Sublist"
begin

section \<open>Python values, exceptions and the upstream\<close>

text \<open>
  The five modules (\<^verbatim>\<open>github-mcp-server/server.py\<close>, \<^verbatim>\<open>oauth.py\<close>, \<^verbatim>\<open>sample.py\<close>,
  \<^verbatim>\<open>gitlab-mcp-server/main.py\<close>, \<^verbatim>\<open>confluence-mcp-server/main.py\<close>) are embedded
  function by function. Several modules bind the same names; the definitions carry a
  module prefix: \<open>gh_\<close> for \<^verbatim>\<open>server.py\<close>, \<open>oa_\<close> for \<^verbatim>\<open>oauth.py\<close>, \<open>sm_\<close> for
  \<^verbatim>\<open>sample.py\<close>, \<open>gl_\<close> for the GitLab module; the Confluence names are already unique.

  A decoded JSON document (the value of \<^verbatim>\<open>resp.json()\<close>, and the dictionaries the tools
  build and return). A number without fraction or exponent decodes to a Python \<^verbatim>\<open>int\<close>
  (\<open>JNum\<close>), any other number to a Python \<^verbatim>\<open>float\<close> (\<open>JFloat\<close>); the floats are kept
  abstract, and what the interpreter computes on them is the parameter \<open>runtime\<close> below.
  A decoded object keeps its keys distinct, as a Python \<^verbatim>\<open>dict\<close> does.
\<close>

typedecl pyfloat

datatype json =
    JNull
  | JBool bool
  | JNum int
  | JFloat pyfloat
  | JStr string
  | JArr "json list"
  | JObj "(string \<times> json) list"

text \<open>
  The message of an API error is an f-string over a decoded value; it is kept as its
  pieces (literal text and formatted values) instead of being rendered to characters.
\<close>

datatype piece = Lit string | Fmt json

text \<open>
  The exceptions the modules raise themselves (\<^verbatim>\<open>HTTPException(status_code, detail)\<close>,
  \<^verbatim>\<open>RuntimeError(message)\<close>) and the ones the interpreter and the HTTP library raise
  in them. \<open>NameError\<close>, \<open>AttributeError\<close> and \<open>KeyError\<close> carry the name, attribute or
  key concerned; \<open>TypeError\<close> carries the operation; \<open>OverflowError\<close> is the conversion to
  \<^verbatim>\<open>float\<close> of an \<^verbatim>\<open>int\<close> that is too large; \<open>RequestException\<close> is any failure of
  \<^verbatim>\<open>requests.request\<close> itself (connection refused, timeout, invalid URL).
\<close>

datatype exn =
    HTTPException int string
  | RuntimeError "piece list"
  | NameError string
  | AttributeError string
  | KeyError string
  | TypeError string
  | IndexError
  | OverflowError
  | JSONDecodeError
  | RequestException string

record http_request =
  req_method :: string
  req_url :: string
  req_headers :: "(string \<times> string) list"
  req_json :: "json option"

text \<open>
  What the code reads of a \<^verbatim>\<open>requests.Response\<close>: \<^verbatim>\<open>resp.status_code\<close>, \<^verbatim>\<open>resp.text\<close>,
  \<^verbatim>\<open>resp.json()\<close> (\<open>None\<close> when decoding raises) and \<^verbatim>\<open>resp.ok\<close>, which the library
  computes from the status code: it is false exactly for the codes 400 to 599, for which
  \<^verbatim>\<open>raise_for_status\<close> raises.
\<close>

record response =
  resp_status_code :: int
  resp_text :: string
  resp_json :: "json option"

definition resp_ok :: "response \<Rightarrow> bool" where
  "resp_ok resp = (\<not> (400 \<le> resp_status_code resp \<and> resp_status_code resp < 600))"

text \<open>
  The upstream service answers a request in the light of the requests sent before it;
  the state a tool call threads is the log of the requests it has sent, oldest first.
\<close>

type_synonym upstream = "http_request list \<Rightarrow> http_request \<Rightarrow> exn + response"

type_synonym 'a io = "http_request list \<Rightarrow> (exn + 'a) \<times> http_request list"

definition io_return :: "'a \<Rightarrow> 'a io" where
  "io_return x log = (Inr x, log)"

definition io_raise :: "exn \<Rightarrow> 'a io" where
  "io_raise e log = (Inl e, log)"

definition io_lift :: "exn + 'a \<Rightarrow> 'a io" where
  "io_lift r log = (r, log)"

definition io_bind :: "'a io \<Rightarrow> ('a \<Rightarrow> 'b io) \<Rightarrow> 'b io" where
  "io_bind m f log =
     (case m log of
        (Inl e, log') \<Rightarrow> (Inl e, log')
      | (Inr x, log') \<Rightarrow> f x log')"

definition exn_bind :: "exn + 'a \<Rightarrow> ('a \<Rightarrow> exn + 'b) \<Rightarrow> exn + 'b" where
  "exn_bind r f = (case r of Inl e \<Rightarrow> Inl e | Inr x \<Rightarrow> f x)"

text \<open>\<^verbatim>\<open>requests.request(method, url, headers=..., json=...)\<close>: one request to the upstream.\<close>

definition requests_request :: "upstream \<Rightarrow> http_request \<Rightarrow> response io" where
  "requests_request be rq log = (be log rq, log @ [rq])"

definition response_json :: "response \<Rightarrow> exn + json" where
  "response_json resp = (case resp_json resp of None \<Rightarrow> Inl JSONDecodeError | Some j \<Rightarrow> Inr j)"

subsection \<open>Operations of the language\<close>

text \<open>\<^verbatim>\<open>d[k]\<close> on a decoded value with a string key.\<close>

fun subscript :: "json \<Rightarrow> string \<Rightarrow> exn + json" where
  "subscript (JObj kvs) k = (case map_of kvs k of None \<Rightarrow> Inl (KeyError k) | Some v \<Rightarrow> Inr v)"
| "subscript _ k = Inl (TypeError ''subscript'')"

text \<open>\<^verbatim>\<open>f[k]\<close> on an argument of the declared type \<^verbatim>\<open>Dict[str, str]\<close>.\<close>

definition dict_item :: "(string \<times> string) list \<Rightarrow> string \<Rightarrow> exn + string" where
  "dict_item d k = (case map_of d k of None \<Rightarrow> Inl (KeyError k) | Some v \<Rightarrow> Inr v)"

text \<open>\<^verbatim>\<open>d.get(k, default)\<close> and \<^verbatim>\<open>d.get(k)\<close>: only a \<^verbatim>\<open>dict\<close> has the method.\<close>

fun get_default :: "json \<Rightarrow> string \<Rightarrow> json \<Rightarrow> exn + json" where
  "get_default (JObj kvs) k d = Inr (case map_of kvs k of None \<Rightarrow> d | Some v \<Rightarrow> v)"
| "get_default _ k d = Inl (AttributeError ''get'')"

definition get :: "json \<Rightarrow> string \<Rightarrow> exn + json" where
  "get j k = get_default j k JNull"

text \<open>
  What the interpreter computes on floats: the conversion \<^verbatim>\<open>float(n)\<close> of an \<^verbatim>\<open>int\<close> (it
  raises \<open>OverflowError\<close> when \<open>n\<close> is too large), the sum of two floats, rounded as the
  machine rounds it, and the truth value of a float (false for zero).
\<close>

record runtime =
  float_of_int :: "int \<Rightarrow> exn + pyfloat"
  float_plus :: "pyfloat \<Rightarrow> pyfloat \<Rightarrow> pyfloat"
  float_truthy :: "pyfloat \<Rightarrow> bool"

text \<open>Truth value of a decoded value, as \<^verbatim>\<open>if v\<close> and \<^verbatim>\<open>not v\<close> test it.\<close>

fun truthy :: "runtime \<Rightarrow> json \<Rightarrow> bool" where
  "truthy rt JNull = False"
| "truthy rt (JBool b) = b"
| "truthy rt (JNum n) = (n \<noteq> 0)"
| "truthy rt (JFloat x) = float_truthy rt x"
| "truthy rt (JStr s) = (s \<noteq> [])"
| "truthy rt (JArr xs) = (xs \<noteq> [])"
| "truthy rt (JObj kvs) = (kvs \<noteq> [])"

text \<open>
  \<^verbatim>\<open>a + b\<close> on decoded values; \<^verbatim>\<open>bool\<close> is a subtype of \<^verbatim>\<open>int\<close>. Two integers are added
  exactly. When one operand is a float and the other a number, the other is converted to
  a float and the two floats are added by the machine.
\<close>

fun int_value :: "json \<Rightarrow> int option" where
  "int_value (JNum n) = Some n"
| "int_value (JBool b) = Some (if b then 1 else 0)"
| "int_value _ = None"

fun float_value :: "runtime \<Rightarrow> json \<Rightarrow> (exn + pyfloat) option" where
  "float_value rt (JFloat x) = Some (Inr x)"
| "float_value rt (JNum n) = Some (float_of_int rt n)"
| "float_value rt (JBool b) = Some (float_of_int rt (if b then 1 else 0))"
| "float_value rt _ = None"

definition py_add :: "runtime \<Rightarrow> json \<Rightarrow> json \<Rightarrow> exn + json" where
  "py_add rt a b =
     (case (int_value a, int_value b) of
        (Some m, Some n) \<Rightarrow> Inr (JNum (m + n))
      | _ \<Rightarrow>
        (case (float_value rt a, float_value rt b) of
           (Some x, Some y) \<Rightarrow>
             exn_bind x (\<lambda>x'. exn_bind y (\<lambda>y'. Inr (JFloat (float_plus rt x' y'))))
         | _ \<Rightarrow>
           (case (a, b) of
              (JStr s, JStr t) \<Rightarrow> Inr (JStr (s @ t))
            | (JArr xs, JArr ys) \<Rightarrow> Inr (JArr (xs @ ys))
            | _ \<Rightarrow> Inl (TypeError ''+''))))"

text \<open>\<^verbatim>\<open>str(n)\<close> for an integer: its decimal digits.\<close>

definition digit_char :: "nat \<Rightarrow> char" where
  "digit_char d = ''0123456789'' ! d"

fun str_nat :: "nat \<Rightarrow> string" where
  "str_nat n = (if n < 10 then [digit_char n] else str_nat (n div 10) @ [digit_char (n mod 10)])"

declare str_nat.simps [simp del]

definition str_int :: "int \<Rightarrow> string" where
  "str_int i = (if i < 0 then CHR ''-'' # str_nat (nat (- i)) else str_nat (nat i))"

text \<open>
  \<^verbatim>\<open>f"{v}"\<close> for a decoded value \<open>v\<close>: a string is inserted as it is, an integer by its
  digits, \<^verbatim>\<open>None\<close>, \<^verbatim>\<open>True\<close> and \<^verbatim>\<open>False\<close> by their names; the rendering of a float, a list
  or a dictionary is the parameter \<open>repr\<close>.
\<close>

definition py_format :: "(json \<Rightarrow> string) \<Rightarrow> json \<Rightarrow> string" where
  "py_format repr v =
     (case v of
        JStr s \<Rightarrow> s
      | JNum n \<Rightarrow> str_int n
      | JNull \<Rightarrow> ''None''
      | JBool b \<Rightarrow> (if b then ''True'' else ''False'')
      | _ \<Rightarrow> repr v)"

text \<open>\<^verbatim>\<open>s.lower()\<close>, on text of the ASCII range.\<close>

definition lower_char :: "char \<Rightarrow> char" where
  "lower_char c =
     (case map_of (zip ''ABCDEFGHIJKLMNOPQRSTUVWXYZ'' ''abcdefghijklmnopqrstuvwxyz'') c of
        None \<Rightarrow> c
      | Some d \<Rightarrow> d)"

definition lower :: "string \<Rightarrow> string" where
  "lower s = map lower_char s"

text \<open>\<^verbatim>\<open>needle in haystack\<close> on strings: a contiguous occurrence.\<close>

fun str_in :: "string \<Rightarrow> string \<Rightarrow> bool" where
  "str_in needle [] = (needle = [])"
| "str_in needle (c # cs) = (prefix needle (c # cs) \<or> str_in needle cs)"

subsection \<open>The readonly check\<close>

text \<open>
  The inbound \<^verbatim>\<open>Request\<close>, of which the tools read the headers only. A tool's parameter
  \<^verbatim>\<open>request: Request = None\<close> is an optional one. \<^verbatim>\<open>request.headers.get\<close> compares header
  names without regard to case.
\<close>

record request =
  headers :: "(string \<times> string) list"

definition headers_get :: "(string \<times> string) list \<Rightarrow> string \<Rightarrow> string \<Rightarrow> string" where
  "headers_get hs k d =
     (case map_of (map (\<lambda>(n, v). (lower n, v)) hs) (lower k) of None \<Rightarrow> d | Some v \<Rightarrow> v)"

text \<open>\<^verbatim>\<open>check_readonly\<close>, the same function in \<^verbatim>\<open>server.py\<close>, \<^verbatim>\<open>sample.py\<close> and the GitLab module.\<close>

definition check_readonly :: "request option \<Rightarrow> exn + unit" where
  "check_readonly rq =
     (case rq of
        None \<Rightarrow> Inl (AttributeError ''headers'')
      | Some r \<Rightarrow>
          if lower (headers_get (headers r) ''X-MCP-Readonly'' '''') = ''true''
          then Inl (HTTPException 403 ''Readonly mode enforced'')
          else Inr ())"

section \<open>GitHub: server.py\<close>

definition gh_BASE_URL :: string where
  "gh_BASE_URL = ''https://api.github.com''"

definition gh_HEADERS :: "string \<Rightarrow> (string \<times> string) list" where
  "gh_HEADERS token =
     [(''Authorization'', ''Bearer '' @ token), (''Accept'', ''application/vnd.github.v3+json'')]"

definition gh_github_request :: "upstream \<Rightarrow> string \<Rightarrow> string \<Rightarrow> string \<Rightarrow> json option \<Rightarrow> json io" where
  "gh_github_request be token meth u body =
     io_bind (requests_request be
                \<lparr>req_method = meth, req_url = u, req_headers = gh_HEADERS token, req_json = body\<rparr>)
       (\<lambda>resp.
          if \<not> resp_ok resp
          then io_raise (RuntimeError [Lit ''GitHub API error '', Fmt (JNum (resp_status_code resp)),
                                       Lit '': '', Fmt (JStr (resp_text resp))])
          else if resp_text resp \<noteq> [] then io_lift (response_json resp)
          else io_return (JObj []))"

text \<open>
  \<^verbatim>\<open>GITHUB_TOKEN\<close> is read at import and the module refuses to load without it; the tools
  take it as \<open>token\<close>. \<^verbatim>\<open>base64.b64encode(content.encode()).decode()\<close> is taken as the
  parameter \<open>b64\<close>.
\<close>

definition gh_create_branch ::
  "upstream \<Rightarrow> string \<Rightarrow> string \<Rightarrow> string \<Rightarrow> string \<Rightarrow> string \<Rightarrow> request option \<Rightarrow> json io" where
  "gh_create_branch be token owner repo new_branch base_branch rq =
     io_bind (io_lift (check_readonly rq)) (\<lambda>_.
     io_bind (gh_github_request be token ''GET''
                (gh_BASE_URL @ ''/repos/'' @ owner @ ''/'' @ repo @ ''/git/ref/heads/'' @ base_branch) None)
       (\<lambda>ref_data.
     io_bind (io_lift (exn_bind (subscript ref_data ''object'') (\<lambda>ob. subscript ob ''sha''))) (\<lambda>sha.
     io_bind (gh_github_request be token ''POST''
                (gh_BASE_URL @ ''/repos/'' @ owner @ ''/'' @ repo @ ''/git/refs'')
                (Some (JObj [(''ref'', JStr (''refs/heads/'' @ new_branch)), (''sha'', sha)])))
       (\<lambda>resp.
     io_return (JObj [(''message'', JStr (''Branch '' @ [CHR 0x27] @ new_branch @ [CHR 0x27] @ '' created'')),
                      (''ref'', resp)])))))"

definition gh_create_or_update_file ::
  "upstream \<Rightarrow> string \<Rightarrow> (string \<Rightarrow> string) \<Rightarrow> string \<Rightarrow> string \<Rightarrow> string \<Rightarrow> string \<Rightarrow> string \<Rightarrow> string
     \<Rightarrow> string option \<Rightarrow> request option \<Rightarrow> json io" where
  "gh_create_or_update_file be token b64 owner repo branch path content message sha rq =
     io_bind (io_lift (check_readonly rq)) (\<lambda>_.
     io_bind (gh_github_request be token ''PUT''
                (gh_BASE_URL @ ''/repos/'' @ owner @ ''/'' @ repo @ ''/contents/'' @ path)
                (Some (JObj ([(''message'', JStr message), (''content'', JStr (b64 content)),
                              (''branch'', JStr branch)]
                             @ (case sha of
                                  None \<Rightarrow> []
                                | Some s \<Rightarrow> if s \<noteq> [] then [(''sha'', JStr s)] else [])))))
       (\<lambda>resp.
     io_bind (io_lift (get resp ''commit'')) (\<lambda>commit.
     io_return (JObj [(''message'', JStr (''File '' @ [CHR 0x27] @ path @ [CHR 0x27] @ '' updated'')),
                      (''commit'', commit)]))))"

definition gh_get_contents :: "upstream \<Rightarrow> string \<Rightarrow> string \<Rightarrow> string \<Rightarrow> string \<Rightarrow> string \<Rightarrow> json io" where
  "gh_get_contents be token owner repo path ref =
     gh_github_request be token ''GET''
       (gh_BASE_URL @ ''/repos/'' @ owner @ ''/'' @ repo @ ''/contents/'' @ path @ ''?ref='' @ ref) None"

definition gh_create_pull_request ::
  "upstream \<Rightarrow> string \<Rightarrow> string \<Rightarrow> string \<Rightarrow> string \<Rightarrow> string \<Rightarrow> string \<Rightarrow> string \<Rightarrow> request option \<Rightarrow> json io" where
  "gh_create_pull_request be token owner repo title head base body rq =
     io_bind (io_lift (check_readonly rq)) (\<lambda>_.
     io_bind (gh_github_request be token ''POST''
                (gh_BASE_URL @ ''/repos/'' @ owner @ ''/'' @ repo @ ''/pulls'')
                (Some (JObj [(''title'', JStr title), (''head'', JStr head), (''base'', JStr base),
                             (''body'', JStr body)])))
       (\<lambda>resp.
     io_bind (io_lift (get resp ''html_url'')) (\<lambda>html_url.
     io_bind (io_lift (get resp ''number'')) (\<lambda>number.
     io_return (JObj [(''message'', JStr ''PR created''), (''url'', html_url), (''number'', number)])))))"

definition gh_merge_pull_request ::
  "upstream \<Rightarrow> string \<Rightarrow> string \<Rightarrow> string \<Rightarrow> int \<Rightarrow> string \<Rightarrow> request option \<Rightarrow> json io" where
  "gh_merge_pull_request be token owner repo pr_number commit_message rq =
     io_bind (io_lift (check_readonly rq)) (\<lambda>_.
     io_bind (gh_github_request be token ''PUT''
                (gh_BASE_URL @ ''/repos/'' @ owner @ ''/'' @ repo @ ''/pulls/'' @ str_int pr_number @ ''/merge'')
                (Some (JObj [(''commit_message'', JStr commit_message)])))
       (\<lambda>resp.
     io_bind (io_lift (get resp ''sha'')) (\<lambda>sha.
     io_return (JObj [(''message'', JStr (''PR #'' @ str_int pr_number @ '' merged'')), (''sha'', sha)]))))"

text \<open>
  The loop of \<^verbatim>\<open>push_multiple_files\<close> over the files, with the list \<^verbatim>\<open>tree_entries\<close> built
  so far: one blob per file, in order; it stops at the first exception.
\<close>

fun gh_push_blobs ::
  "upstream \<Rightarrow> string \<Rightarrow> string \<Rightarrow> string \<Rightarrow> (string \<times> string) list list \<Rightarrow> json list \<Rightarrow> json list io" where
  "gh_push_blobs be token owner repo [] tree_entries = io_return tree_entries"
| "gh_push_blobs be token owner repo (f # fs) tree_entries =
     io_bind (io_lift (dict_item f ''content'')) (\<lambda>content.
     io_bind (gh_github_request be token ''POST''
                (gh_BASE_URL @ ''/repos/'' @ owner @ ''/'' @ repo @ ''/git/blobs'')
                (Some (JObj [(''content'', JStr content), (''encoding'', JStr ''utf-8'')])))
       (\<lambda>blob.
     io_bind (io_lift (dict_item f ''path'')) (\<lambda>path.
     io_bind (io_lift (subscript blob ''sha'')) (\<lambda>sha.
     gh_push_blobs be token owner repo fs
       (tree_entries @ [JObj [(''path'', JStr path), (''mode'', JStr ''100644''),
                              (''type'', JStr ''blob''), (''sha'', sha)]])))))"

definition gh_push_multiple_files ::
  "upstream \<Rightarrow> string \<Rightarrow> (json \<Rightarrow> string) \<Rightarrow> string \<Rightarrow> string \<Rightarrow> string \<Rightarrow> (string \<times> string) list list
     \<Rightarrow> string \<Rightarrow> request option \<Rightarrow> json io" where
  "gh_push_multiple_files be token repr owner repo branch files message rq =
     io_bind (io_lift (check_readonly rq)) (\<lambda>_.
     io_bind (gh_github_request be token ''GET''
                (gh_BASE_URL @ ''/repos/'' @ owner @ ''/'' @ repo @ ''/git/ref/heads/'' @ branch) None)
       (\<lambda>ref_data.
     io_bind (io_lift (exn_bind (subscript ref_data ''object'') (\<lambda>ob. subscript ob ''sha'')))
       (\<lambda>latest_commit_sha.
     io_bind (gh_github_request be token ''GET''
                (gh_BASE_URL @ ''/repos/'' @ owner @ ''/'' @ repo @ ''/git/commits/''
                 @ py_format repr latest_commit_sha) None)
       (\<lambda>commit_data.
     io_bind (io_lift (exn_bind (subscript commit_data ''tree'') (\<lambda>t. subscript t ''sha''))) (\<lambda>base_tree.
     io_bind (gh_push_blobs be token owner repo files []) (\<lambda>tree_entries.
     io_bind (gh_github_request be token ''POST''
                (gh_BASE_URL @ ''/repos/'' @ owner @ ''/'' @ repo @ ''/git/trees'')
                (Some (JObj [(''base_tree'', base_tree), (''tree'', JArr tree_entries)])))
       (\<lambda>tree.
     io_bind (io_lift (subscript tree ''sha'')) (\<lambda>tree_sha.
     io_bind (gh_github_request be token ''POST''
                (gh_BASE_URL @ ''/repos/'' @ owner @ ''/'' @ repo @ ''/git/commits'')
                (Some (JObj [(''message'', JStr message), (''tree'', tree_sha),
                             (''parents'', JArr [latest_commit_sha])])))
       (\<lambda>commit.
     io_bind (io_lift (subscript commit ''sha'')) (\<lambda>commit_sha.
     io_bind (gh_github_request be token ''PATCH''
                (gh_BASE_URL @ ''/repos/'' @ owner @ ''/'' @ repo @ ''/git/ref/heads/'' @ branch)
                (Some (JObj [(''sha'', commit_sha)])))
       (\<lambda>_.
     io_return (JObj [(''message'', JStr (''Committed '' @ str_nat (length files) @ '' files'')),
                      (''commit'', commit)]))))))))))))"

definition gh_update_pr_branch ::
  "upstream \<Rightarrow> string \<Rightarrow> string \<Rightarrow> string \<Rightarrow> int \<Rightarrow> request option \<Rightarrow> json io" where
  "gh_update_pr_branch be token owner repo pr_number rq =
     io_bind (io_lift (check_readonly rq)) (\<lambda>_.
     io_bind (gh_github_request be token ''PUT''
                (gh_BASE_URL @ ''/repos/'' @ owner @ ''/'' @ repo @ ''/pulls/'' @ str_int pr_number
                 @ ''/update-branch'')
                (Some (JObj [])))
       (\<lambda>resp.
     io_return (JObj [(''message'', JStr (''PR #'' @ str_int pr_number @ '' branch update requested'')),
                      (''response'', resp)])))"

section \<open>GitHub: sample.py\<close>

text \<open>
  The module-level state of \<^verbatim>\<open>sample.py\<close>: \<^verbatim>\<open>GITHUB_TOKEN\<close> (the fallback token, possibly
  unset), \<^verbatim>\<open>BASE_URL\<close> and the dictionary \<^verbatim>\<open>user_tokens\<close>.
\<close>

record sm_module =
  sm_GITHUB_TOKEN :: "string option"
  sm_BASE_URL :: string
  sm_user_tokens :: "string \<rightharpoonup> string"

definition sm_get_auth_header :: "sm_module \<Rightarrow> string option \<Rightarrow> exn + (string \<times> string) list" where
  "sm_get_auth_header md user =
     (let fallback = (case sm_GITHUB_TOKEN md of
                        None \<Rightarrow> None
                      | Some t \<Rightarrow> if t \<noteq> [] then Some t else None);
          token = (case user of
                     None \<Rightarrow> fallback
                   | Some u \<Rightarrow>
                       if u \<noteq> [] then (case sm_user_tokens md u of None \<Rightarrow> fallback | Some t \<Rightarrow> Some t)
                       else fallback)
      in case token of
           None \<Rightarrow> Inl (HTTPException 401 ''No GitHub token available'')
         | Some t \<Rightarrow>
             if t = [] then Inl (HTTPException 401 ''No GitHub token available'')
             else Inr [(''Authorization'', ''Bearer '' @ t),
                       (''Accept'', ''application/vnd.github.v3+json'')])"

definition sm_github_request ::
  "sm_module \<Rightarrow> upstream \<Rightarrow> string \<Rightarrow> string \<Rightarrow> string option \<Rightarrow> json option \<Rightarrow> json io" where
  "sm_github_request md be meth u user body =
     io_bind (io_lift (sm_get_auth_header md user)) (\<lambda>hs.
     io_bind (requests_request be \<lparr>req_method = meth, req_url = u, req_headers = hs, req_json = body\<rparr>)
       (\<lambda>resp.
          if \<not> resp_ok resp then io_raise (HTTPException (resp_status_code resp) (resp_text resp))
          else if resp_text resp \<noteq> [] then io_lift (response_json resp)
          else io_return (JObj [])))"

definition sm_create_branch ::
  "sm_module \<Rightarrow> upstream \<Rightarrow> string \<Rightarrow> string \<Rightarrow> string \<Rightarrow> string \<Rightarrow> string option \<Rightarrow> request option
     \<Rightarrow> json io" where
  "sm_create_branch md be owner repo new_branch base_branch user rq =
     io_bind (io_lift (check_readonly rq)) (\<lambda>_.
     io_bind (sm_github_request md be ''GET''
                (sm_BASE_URL md @ ''/repos/'' @ owner @ ''/'' @ repo @ ''/git/ref/heads/'' @ base_branch)
                user None)
       (\<lambda>ref_data.
     io_bind (io_lift (exn_bind (subscript ref_data ''object'') (\<lambda>ob. subscript ob ''sha''))) (\<lambda>sha.
     io_bind (sm_github_request md be ''POST''
                (sm_BASE_URL md @ ''/repos/'' @ owner @ ''/'' @ repo @ ''/git/refs'') user
                (Some (JObj [(''ref'', JStr (''refs/heads/'' @ new_branch)), (''sha'', sha)])))
       (\<lambda>resp.
     io_return (JObj [(''message'', JStr (''Branch '' @ [CHR 0x27] @ new_branch @ [CHR 0x27] @ '' created'')),
                      (''ref'', resp)])))))"

definition sm_create_or_update_file ::
  "sm_module \<Rightarrow> upstream \<Rightarrow> (string \<Rightarrow> string) \<Rightarrow> string \<Rightarrow> string \<Rightarrow> string \<Rightarrow> string \<Rightarrow> string \<Rightarrow> string
     \<Rightarrow> string option \<Rightarrow> string option \<Rightarrow> request option \<Rightarrow> json io" where
  "sm_create_or_update_file md be b64 owner repo branch path content message sha user rq =
     io_bind (io_lift (check_readonly rq)) (\<lambda>_.
     io_bind (sm_github_request md be ''PUT''
                (sm_BASE_URL md @ ''/repos/'' @ owner @ ''/'' @ repo @ ''/contents/'' @ path) user
                (Some (JObj ([(''message'', JStr message), (''content'', JStr (b64 content)),
                              (''branch'', JStr branch)]
                             @ (case sha of
                                  None \<Rightarrow> []
                                | Some s \<Rightarrow> if s \<noteq> [] then [(''sha'', JStr s)] else [])))))
       (\<lambda>resp.
     io_bind (io_lift (get resp ''commit'')) (\<lambda>commit.
     io_return (JObj [(''message'', JStr (''File '' @ [CHR 0x27] @ path @ [CHR 0x27] @ '' updated'')),
                      (''commit'', commit)]))))"

definition sm_get_contents ::
  "sm_module \<Rightarrow> upstream \<Rightarrow> string \<Rightarrow> string \<Rightarrow> string \<Rightarrow> string \<Rightarrow> string option \<Rightarrow> json io" where
  "sm_get_contents md be owner repo path ref user =
     sm_github_request md be ''GET''
       (sm_BASE_URL md @ ''/repos/'' @ owner @ ''/'' @ repo @ ''/contents/'' @ path @ ''?ref='' @ ref)
       user None"

definition sm_create_pull_request ::
  "sm_module \<Rightarrow> upstream \<Rightarrow> string \<Rightarrow> string \<Rightarrow> string \<Rightarrow> string \<Rightarrow> string \<Rightarrow> string \<Rightarrow> string option
     \<Rightarrow> request option \<Rightarrow> json io" where
  "sm_create_pull_request md be owner repo title head base body user rq =
     io_bind (io_lift (check_readonly rq)) (\<lambda>_.
     io_bind (sm_github_request md be ''POST''
                (sm_BASE_URL md @ ''/repos/'' @ owner @ ''/'' @ repo @ ''/pulls'') user
                (Some (JObj [(''title'', JStr title), (''head'', JStr head), (''base'', JStr base),
                             (''body'', JStr body)])))
       (\<lambda>resp.
     io_bind (io_lift (get resp ''html_url'')) (\<lambda>html_url.
     io_bind (io_lift (get resp ''number'')) (\<lambda>number.
     io_return (JObj [(''message'', JStr ''PR created''), (''url'', html_url), (''number'', number)])))))"

definition sm_merge_pull_request ::
  "sm_module \<Rightarrow> upstream \<Rightarrow> string \<Rightarrow> string \<Rightarrow> int \<Rightarrow> string \<Rightarrow> string option \<Rightarrow> request option
     \<Rightarrow> json io" where
  "sm_merge_pull_request md be owner repo pr_number commit_message user rq =
     io_bind (io_lift (check_readonly rq)) (\<lambda>_.
     io_bind (sm_github_request md be ''PUT''
                (sm_BASE_URL md @ ''/repos/'' @ owner @ ''/'' @ repo @ ''/pulls/'' @ str_int pr_number
                 @ ''/merge'') user
                (Some (JObj [(''commit_message'', JStr commit_message)])))
       (\<lambda>resp.
     io_bind (io_lift (get resp ''sha'')) (\<lambda>sha.
     io_return (JObj [(''message'', JStr (''PR #'' @ str_int pr_number @ '' merged'')), (''sha'', sha)]))))"

text \<open>
  \<^verbatim>\<open>query_github\<close> hands the bare path to \<^verbatim>\<open>github_request\<close> as the URL, as the source does.
  The keywords are tried in the order \<^verbatim>\<open>pull\<close>, \<^verbatim>\<open>issue\<close>, \<^verbatim>\<open>release\<close>.
\<close>

definition sm_query_github :: "sm_module \<Rightarrow> upstream \<Rightarrow> string \<Rightarrow> string \<Rightarrow> json io" where
  "sm_query_github md be query user =
     (if str_in ''pull'' (lower query)
      then sm_github_request md be ''GET'' ''/repos/org/repo/pulls?state=open'' (Some user) None
      else if str_in ''issue'' (lower query)
      then sm_github_request md be ''GET'' ''/repos/org/repo/issues?state=open'' (Some user) None
      else if str_in ''release'' (lower query)
      then sm_github_request md be ''GET'' ''/repos/org/repo/releases'' (Some user) None
      else io_return (JObj [(''message'', JStr (''Query not understood: '' @ query))]))"

text \<open>
  The digest text. \<^verbatim>\<open>for pr in prs\<close> iterates a list by its elements, a dictionary by its
  keys and a string by its characters; each line formats \<^verbatim>\<open>pr['title']\<close> and then
  \<^verbatim>\<open>pr['number']\<close>. \<^verbatim>\<open>"\n".join(lines) or default\<close> takes the default when the joined text
  is empty.
\<close>

fun py_iter :: "json \<Rightarrow> exn + json list" where
  "py_iter (JArr xs) = Inr xs"
| "py_iter (JObj kvs) = Inr (map (\<lambda>kv. JStr (fst kv)) kvs)"
| "py_iter (JStr s) = Inr (map (\<lambda>c. JStr [c]) s)"
| "py_iter _ = Inl (TypeError ''iter'')"

fun digest_lines :: "(json \<Rightarrow> string) \<Rightarrow> json list \<Rightarrow> exn + string list" where
  "digest_lines repr [] = Inr []"
| "digest_lines repr (x # xs) =
     exn_bind (subscript x ''title'') (\<lambda>title.
     exn_bind (subscript x ''number'') (\<lambda>number.
     exn_bind (digest_lines repr xs) (\<lambda>rest.
     Inr ((''- '' @ py_format repr title @ '' (#'' @ py_format repr number @ '')'') # rest))))"

fun py_join :: "string \<Rightarrow> string list \<Rightarrow> string" where
  "py_join sep [] = []"
| "py_join sep [x] = x"
| "py_join sep (x # y # ys) = x @ sep @ py_join sep (y # ys)"

definition py_or :: "string \<Rightarrow> string \<Rightarrow> string" where
  "py_or a b = (if a \<noteq> [] then a else b)"

definition digest_text :: "(json \<Rightarrow> string) \<Rightarrow> json \<Rightarrow> json \<Rightarrow> exn + string" where
  "digest_text repr prs issues =
     exn_bind (exn_bind (py_iter prs) (digest_lines repr)) (\<lambda>pr_lines.
     exn_bind (exn_bind (py_iter issues) (digest_lines repr)) (\<lambda>issue_lines.
     Inr (''# Weekly Digest'' @ [CHR 0x0A, CHR 0x0A] @ ''## Pull Requests'' @ [CHR 0x0A]
          @ py_or (py_join [CHR 0x0A] pr_lines) (''No PRs'' @ [CHR 0x0A])
          @ [CHR 0x0A, CHR 0x0A] @ ''## Issues'' @ [CHR 0x0A]
          @ py_or (py_join [CHR 0x0A] issue_lines) (''No issues'' @ [CHR 0x0A]))))"

text \<open>
  \<open>week_ago\<close> stands for \<^verbatim>\<open>(datetime.datetime.utcnow() - datetime.timedelta(days=7)).isoformat()\<close>.
\<close>

definition sm_weekly_digest ::
  "sm_module \<Rightarrow> upstream \<Rightarrow> (json \<Rightarrow> string) \<Rightarrow> string \<Rightarrow> string \<Rightarrow> json io" where
  "sm_weekly_digest md be repr week_ago user =
     io_bind (sm_github_request md be ''GET''
                ''/repos/org/repo/pulls?state=all&sort=updated&direction=desc'' (Some user) None)
       (\<lambda>prs.
     io_bind (sm_github_request md be ''GET''
                (''/repos/org/repo/issues?since='' @ (week_ago @ ''Z'')) (Some user) None)
       (\<lambda>issues.
     io_bind (io_lift (digest_text repr prs issues)) (\<lambda>md_text.
     io_return (JObj [(''digest'', JStr md_text)]))))"

section \<open>GitHub: oauth.py\<close>

record oa_module =
  oa_BASE_URL :: string
  oa_user_tokens :: "string \<rightharpoonup> string"

definition oa_github_request ::
  "oa_module \<Rightarrow> upstream \<Rightarrow> string \<Rightarrow> string \<Rightarrow> string \<Rightarrow> json option \<Rightarrow> json io" where
  "oa_github_request md be user meth path body =
     (case oa_user_tokens md user of
        None \<Rightarrow> io_raise (HTTPException 401 ''User not authenticated'')
      | Some token \<Rightarrow>
          if token = [] then io_raise (HTTPException 401 ''User not authenticated'')
          else
            io_bind (requests_request be
                       \<lparr>req_method = meth, req_url = oa_BASE_URL md @ path,
                        req_headers = [(''Authorization'', ''Bearer '' @ token),
                                       (''Accept'', ''application/vnd.github.v3+json'')],
                        req_json = body\<rparr>)
              (\<lambda>resp.
                 if \<not> resp_ok resp then io_raise (HTTPException (resp_status_code resp) (resp_text resp))
                 else io_lift (response_json resp)))"

definition oa_query_github :: "oa_module \<Rightarrow> upstream \<Rightarrow> string \<Rightarrow> string \<Rightarrow> json io" where
  "oa_query_github md be query user =
     (if str_in ''pull'' (lower query)
      then oa_github_request md be user ''GET'' ''/repos/org/repo/pulls?state=open'' None
      else if str_in ''issue'' (lower query)
      then oa_github_request md be user ''GET'' ''/repos/org/repo/issues?state=open'' None
      else if str_in ''release'' (lower query)
      then oa_github_request md be user ''GET'' ''/repos/org/repo/releases'' None
      else io_return (JObj [(''message'', JStr (''Query not understood: '' @ query))]))"

definition oa_weekly_digest ::
  "oa_module \<Rightarrow> upstream \<Rightarrow> (json \<Rightarrow> string) \<Rightarrow> string \<Rightarrow> string \<Rightarrow> json io" where
  "oa_weekly_digest md be repr week_ago user =
     io_bind (oa_github_request md be user ''GET''
                ''/repos/org/repo/pulls?state=all&sort=updated&direction=desc'' None)
       (\<lambda>prs.
     io_bind (oa_github_request md be user ''GET''
                (''/repos/org/repo/issues?since='' @ (week_ago @ ''Z'')) None)
       (\<lambda>issues.
     io_bind (io_lift (digest_text repr prs issues)) (\<lambda>md_text.
     io_return (JObj [(''digest'', JStr md_text)]))))"

section \<open>GitLab: main.py\<close>

text \<open>
  \<^verbatim>\<open>GITLAB_TOKEN\<close> and \<^verbatim>\<open>GITLAB_BASE_URL\<close> are read at import; the tools take them as
  \<open>token\<close> and \<open>base\<close>. \<^verbatim>\<open>requests.utils.quote(s, safe=...)\<close> is the parameter \<open>quote\<close>,
  applied to the text and the \<open>safe\<close> characters.
\<close>

definition gl_HEADERS :: "string \<Rightarrow> (string \<times> string) list" where
  "gl_HEADERS token = [(''PRIVATE-TOKEN'', token), (''Accept'', ''application/json'')]"

definition gitlab_request :: "upstream \<Rightarrow> string \<Rightarrow> string \<Rightarrow> string \<Rightarrow> json option \<Rightarrow> json io" where
  "gitlab_request be token meth u body =
     io_bind (requests_request be
                \<lparr>req_method = meth, req_url = u, req_headers = gl_HEADERS token, req_json = body\<rparr>)
       (\<lambda>resp.
          if \<not> resp_ok resp
          then io_raise (RuntimeError [Lit ''GitLab API error '', Fmt (JNum (resp_status_code resp)),
                                       Lit '': '', Fmt (JStr (resp_text resp))])
          else if resp_text resp \<noteq> [] then io_lift (response_json resp)
          else io_return (JObj []))"

text \<open>
  The names bound at the top level of the GitLab module, in the order of their binding.
  The mutating tools evaluate \<^verbatim>\<open>check_readonly(request)\<close>, although \<^verbatim>\<open>request\<close> is not one
  of their parameters: the name is looked up among the module's globals (and then the
  builtins, which have no such name), and a name that is not bound raises \<open>NameError\<close>.
\<close>

definition gl_globals :: "string list" where
  "gl_globals =
     [''os'', ''base64'', ''requests'', ''List'', ''Dict'', ''Optional'', ''logger'', ''FastAPI'',
      ''Request'', ''HTTPException'', ''asynccontextmanager'', ''contextlib'', ''FastMCP'',
      ''GITLAB_TOKEN'', ''GITLAB_BASE_URL'', ''HEADERS'', ''gitlab_request'', ''check_readonly'',
      ''mcp'', ''create_branch'', ''create_or_update_file'', ''get_contents'',
      ''create_merge_request'', ''merge_merge_request'', ''push_multiple_files'',
      ''update_mr_branch'', ''mcp_app'', ''lifespan'', ''app'', ''healthz'']"

definition gl_load_request :: "request option \<Rightarrow> exn + request option" where
  "gl_load_request bound =
     (if ''request'' \<in> set gl_globals then Inr bound else Inl (NameError ''request''))"

text \<open>
  Each mutating tool starts with \<open>gl_load_request\<close>; its argument \<open>bound\<close> is the value the
  name would have if the module bound it, and is not read otherwise.
\<close>

definition gl_create_branch ::
  "upstream \<Rightarrow> string \<Rightarrow> string \<Rightarrow> request option \<Rightarrow> string \<Rightarrow> string \<Rightarrow> string \<Rightarrow> json io" where
  "gl_create_branch be token base bound project_id new_branch base_branch =
     io_bind (io_lift (exn_bind (gl_load_request bound) check_readonly)) (\<lambda>_.
     io_bind (gitlab_request be token ''POST''
                (base @ ''/projects/'' @ project_id @ ''/repository/branches'')
                (Some (JObj [(''branch'', JStr new_branch), (''ref'', JStr base_branch)])))
       (\<lambda>resp.
     io_return (JObj [(''message'', JStr (''Branch '' @ [CHR 0x27] @ new_branch @ [CHR 0x27] @ '' created'')),
                      (''branch'', resp)])))"

definition gl_create_or_update_file ::
  "upstream \<Rightarrow> string \<Rightarrow> string \<Rightarrow> request option \<Rightarrow> (string \<Rightarrow> string \<Rightarrow> string) \<Rightarrow> string \<Rightarrow> string
     \<Rightarrow> string \<Rightarrow> string \<Rightarrow> string \<Rightarrow> string option \<Rightarrow> json io" where
  "gl_create_or_update_file be token base bound quote project_id branch path content message sha =
     io_bind (io_lift (exn_bind (gl_load_request bound) check_readonly)) (\<lambda>_.
     io_bind (gitlab_request be token
                (if (case sha of None \<Rightarrow> False | Some s \<Rightarrow> s \<noteq> []) then ''PUT'' else ''POST'')
                (base @ ''/projects/'' @ project_id @ ''/repository/files/'' @ quote path [])
                (Some (JObj [(''branch'', JStr branch), (''content'', JStr content),
                             (''commit_message'', JStr message)])))
       (\<lambda>resp.
     io_return (JObj [(''message'', JStr (''File '' @ [CHR 0x27] @ path @ [CHR 0x27] @ '' updated'')),
                      (''response'', resp)])))"

definition gl_get_contents ::
  "upstream \<Rightarrow> string \<Rightarrow> string \<Rightarrow> (string \<Rightarrow> string \<Rightarrow> string) \<Rightarrow> string \<Rightarrow> string \<Rightarrow> string \<Rightarrow> json io" where
  "gl_get_contents be token base quote project_id path ref =
     gitlab_request be token ''GET''
       (base @ ''/projects/'' @ project_id @ ''/repository/files/'' @ quote path [] @ ''?ref='' @ ref)
       None"

definition gl_create_merge_request ::
  "upstream \<Rightarrow> string \<Rightarrow> string \<Rightarrow> request option \<Rightarrow> string \<Rightarrow> string \<Rightarrow> string \<Rightarrow> string \<Rightarrow> string
     \<Rightarrow> json io" where
  "gl_create_merge_request be token base bound project_id title source_branch target_branch description =
     io_bind (io_lift (exn_bind (gl_load_request bound) check_readonly)) (\<lambda>_.
     io_bind (gitlab_request be token ''POST''
                (base @ ''/projects/'' @ project_id @ ''/merge_requests'')
                (Some (JObj [(''title'', JStr title), (''source_branch'', JStr source_branch),
                             (''target_branch'', JStr target_branch),
                             (''description'', JStr description)])))
       (\<lambda>resp.
     io_bind (io_lift (get resp ''web_url'')) (\<lambda>web_url.
     io_bind (io_lift (get resp ''iid'')) (\<lambda>iid.
     io_return (JObj [(''message'', JStr ''Merge request created''), (''url'', web_url),
                      (''iid'', iid)])))))"

definition gl_merge_merge_request ::
  "upstream \<Rightarrow> string \<Rightarrow> string \<Rightarrow> request option \<Rightarrow> string \<Rightarrow> int \<Rightarrow> string \<Rightarrow> json io" where
  "gl_merge_merge_request be token base bound project_id mr_iid merge_commit_message =
     io_bind (io_lift (exn_bind (gl_load_request bound) check_readonly)) (\<lambda>_.
     io_bind (gitlab_request be token ''PUT''
                (base @ ''/projects/'' @ project_id @ ''/merge_requests/'' @ str_int mr_iid @ ''/merge'')
                (Some (JObj [(''merge_commit_message'', JStr merge_commit_message)])))
       (\<lambda>resp.
     io_bind (io_lift (get resp ''sha'')) (\<lambda>sha.
     io_return (JObj [(''message'', JStr (''MR !'' @ str_int mr_iid @ '' merged'')), (''sha'', sha)]))))"

definition gl_file_action :: "(string \<times> string) list \<Rightarrow> exn + json" where
  "gl_file_action f =
     exn_bind (dict_item f ''path'') (\<lambda>path.
     exn_bind (dict_item f ''content'') (\<lambda>content.
     Inr (JObj [(''action'', JStr ''create''), (''file_path'', JStr path), (''content'', JStr content)])))"

fun gl_file_actions :: "(string \<times> string) list list \<Rightarrow> exn + json list" where
  "gl_file_actions [] = Inr []"
| "gl_file_actions (f # fs) =
     exn_bind (gl_file_action f) (\<lambda>a. exn_bind (gl_file_actions fs) (\<lambda>as. Inr (a # as)))"

definition gl_push_multiple_files ::
  "upstream \<Rightarrow> string \<Rightarrow> string \<Rightarrow> request option \<Rightarrow> string \<Rightarrow> string \<Rightarrow> (string \<times> string) list list
     \<Rightarrow> string \<Rightarrow> json io" where
  "gl_push_multiple_files be token base bound project_id branch files message =
     io_bind (io_lift (exn_bind (gl_load_request bound) check_readonly)) (\<lambda>_.
     io_bind (io_lift (gl_file_actions files)) (\<lambda>actions.
     io_bind (gitlab_request be token ''POST''
                (base @ ''/projects/'' @ project_id @ ''/repository/commits'')
                (Some (JObj [(''branch'', JStr branch), (''commit_message'', JStr message),
                             (''actions'', JArr actions)])))
       (\<lambda>resp.
     io_return (JObj [(''message'', JStr (''Committed '' @ str_nat (length files) @ '' files'')),
                      (''commit'', resp)]))))"

definition gl_update_mr_branch ::
  "upstream \<Rightarrow> string \<Rightarrow> string \<Rightarrow> request option \<Rightarrow> string \<Rightarrow> int \<Rightarrow> json io" where
  "gl_update_mr_branch be token base bound project_id mr_iid =
     io_bind (io_lift (exn_bind (gl_load_request bound) check_readonly)) (\<lambda>_.
     io_bind (gitlab_request be token ''PUT''
                (base @ ''/projects/'' @ project_id @ ''/merge_requests/'' @ str_int mr_iid @ ''/rebase'')
                None)
       (\<lambda>resp.
     io_return (JObj [(''message'', JStr (''MR !'' @ str_int mr_iid @ '' rebase requested'')),
                      (''response'', resp)])))"

section \<open>Confluence: main.py\<close>

text \<open>
  \<^verbatim>\<open>CONFLUENCE_BASE_URL\<close> and \<^verbatim>\<open>CONFLUENCE_PAT\<close> are read at import; the tools take them as
  \<open>base\<close> and \<open>pat\<close>. \<^verbatim>\<open>s.rstrip('/')\<close> drops every trailing slash.
\<close>

definition rstrip_slash :: "string \<Rightarrow> string" where
  "rstrip_slash s = rev (dropWhile (\<lambda>c. c = CHR ''/'') (rev s))"

definition API_BASE :: "string \<Rightarrow> string" where
  "API_BASE base = rstrip_slash base @ ''/rest/api''"

definition cf_HEADERS :: "string \<Rightarrow> (string \<times> string) list" where
  "cf_HEADERS pat =
     [(''Accept'', ''application/json''), (''Content-Type'', ''application/json''),
      (''Authorization'', ''Bearer '' @ pat)]"

definition cf_request :: "upstream \<Rightarrow> string \<Rightarrow> string \<Rightarrow> string \<Rightarrow> json option \<Rightarrow> json io" where
  "cf_request be pat meth u body =
     io_bind (requests_request be
                \<lparr>req_method = meth, req_url = u, req_headers = cf_HEADERS pat, req_json = body\<rparr>)
       (\<lambda>resp.
          if \<not> resp_ok resp
          then io_raise (RuntimeError
                 [Lit ''Confluence API error '', Fmt (JNum (resp_status_code resp)), Lit '': '',
                  Fmt (case resp_json resp of Some detail \<Rightarrow> detail | None \<Rightarrow> JStr (resp_text resp))])
          else if resp_text resp \<noteq> []
          then io_return (case resp_json resp of
                            Some j \<Rightarrow> j
                          | None \<Rightarrow> JObj [(''raw'', JStr (resp_text resp))])
          else io_return (JObj []))"

definition storage_body_html :: "string \<Rightarrow> json" where
  "storage_body_html html =
     JObj [(''storage'', JObj [(''value'', JStr html), (''representation'', JStr ''storage'')])]"

text \<open>\<^verbatim>\<open>if s\<close> for an argument of type \<^verbatim>\<open>Optional[str]\<close>.\<close>

definition given :: "string option \<Rightarrow> bool" where
  "given a = (case a of None \<Rightarrow> False | Some s \<Rightarrow> s \<noteq> [])"

definition confluence_create_page ::
  "runtime \<Rightarrow> upstream \<Rightarrow> string \<Rightarrow> string \<Rightarrow> string \<Rightarrow> string \<Rightarrow> string \<Rightarrow> string option
     \<Rightarrow> json io" where
  "confluence_create_page rt be base pat space_key title html_content parent_page_id =
     io_bind (cf_request be pat ''POST'' (API_BASE base @ ''/content'')
                (Some (JObj ([(''type'', JStr ''page''), (''title'', JStr title),
                              (''space'', JObj [(''key'', JStr space_key)]),
                              (''body'', storage_body_html html_content)]
                             @ (if given parent_page_id
                                then [(''ancestors'', JArr [JObj [(''id'', JStr (the parent_page_id))]])]
                                else [])))))
       (\<lambda>created.
     io_bind (io_lift (get created ''id'')) (\<lambda>cid.
     io_bind (io_lift (get created ''title'')) (\<lambda>ctitle.
     io_bind (io_lift (exn_bind (get_default created ''_links'' (JObj []))
                         (\<lambda>links. get_default links ''base'' (JStr [])))) (\<lambda>lbase.
     io_bind (io_lift (exn_bind (get_default created ''_links'' (JObj []))
                         (\<lambda>links. get_default links ''webui'' (JStr [])))) (\<lambda>webui.
     io_bind (io_lift (py_add rt lbase webui)) (\<lambda>link.
     io_return (JObj [(''message'', JStr ''Page created''), (''id'', cid), (''title'', ctitle),
                      (''link'', link)])))))))"

text \<open>\<^verbatim>\<open>results[0]\<close> on a decoded value.\<close>

fun index0 :: "json \<Rightarrow> exn + json" where
  "index0 (JArr xs) = (case xs of [] \<Rightarrow> Inl IndexError | x # _ \<Rightarrow> Inr x)"
| "index0 (JStr s) = (case s of [] \<Rightarrow> Inl IndexError | c # _ \<Rightarrow> Inr (JStr [c]))"
| "index0 (JObj kvs) = Inl (KeyError ''0'')"
| "index0 _ = Inl (TypeError ''subscript'')"

definition confluence_get_page ::
  "runtime \<Rightarrow> upstream \<Rightarrow> string \<Rightarrow> string \<Rightarrow> (string \<Rightarrow> string \<Rightarrow> string) \<Rightarrow> string option
     \<Rightarrow> string option \<Rightarrow> string option \<Rightarrow> bool \<Rightarrow> json io" where
  "confluence_get_page rt be base pat quote page_id title space_key expand_body =
     (let expand = (if expand_body then ''body.storage,version'' else ''version'') in
      if given page_id
      then cf_request be pat ''GET''
             (API_BASE base @ ''/content/'' @ the page_id @ ''?expand='' @ expand) None
      else if \<not> given title \<or> \<not> given space_key
      then io_raise (RuntimeError [Lit ''Provide either page_id OR (title and space_key).''])
      else
        io_bind (cf_request be pat ''GET''
                   (API_BASE base @ ''/content?title='' @ quote (the title) ''/'' @ ''&spaceKey=''
                    @ quote (the space_key) ''/'' @ ''&expand='' @ expand) None)
          (\<lambda>result.
        io_bind (io_lift (get_default result ''results'' (JArr []))) (\<lambda>results.
        if \<not> truthy rt results
        then io_return (JObj [(''message'', JStr ''No page found''), (''results'', JArr [])])
        else io_lift (index0 results))))"

definition confluence_update_page ::
  "runtime \<Rightarrow> upstream \<Rightarrow> string \<Rightarrow> string \<Rightarrow> string \<Rightarrow> string option \<Rightarrow> string option \<Rightarrow> bool
     \<Rightarrow> json io" where
  "confluence_update_page rt be base pat page_id new_title new_html_content minor_edit =
     io_bind (cf_request be pat ''GET''
                (API_BASE base @ ''/content/'' @ page_id @ ''?expand=version'') None)
       (\<lambda>current.
     io_bind (io_lift (exn_bind (get_default current ''version'' (JObj [])) (\<lambda>v. get v ''number'')))
       (\<lambda>version.
     if \<not> truthy rt version
     then io_raise (RuntimeError [Lit ''Could not determine current version number for the page.''])
     else
       io_bind (io_lift (if given new_title then Inr (JStr (the new_title)) else get current ''title''))
         (\<lambda>ptitle.
       io_bind (io_lift (py_add rt version (JNum 1))) (\<lambda>next_version.
       io_bind (cf_request be pat ''PUT'' (API_BASE base @ ''/content/'' @ page_id)
                  (Some (JObj ([(''id'', JStr page_id), (''type'', JStr ''page''), (''title'', ptitle),
                                (''version'', JObj [(''number'', next_version),
                                                    (''minorEdit'', JBool minor_edit)])]
                               @ (case new_html_content of
                                    None \<Rightarrow> []
                                  | Some html \<Rightarrow> [(''body'', storage_body_html html)])))))
         (\<lambda>updated.
       io_bind (io_lift (get updated ''id'')) (\<lambda>uid.
       io_bind (io_lift (get updated ''title'')) (\<lambda>utitle.
       io_bind (io_lift (exn_bind (get_default updated ''version'' (JObj [])) (\<lambda>v. get v ''number'')))
         (\<lambda>uversion.
       io_return (JObj [(''message'', JStr ''Page updated''), (''id'', uid), (''title'', utitle),
                        (''version'', uversion)])))))))))"

definition confluence_delete_page ::
  "upstream \<Rightarrow> string \<Rightarrow> string \<Rightarrow> (string \<Rightarrow> string \<Rightarrow> string) \<Rightarrow> string \<Rightarrow> string \<Rightarrow> json io" where
  "confluence_delete_page be base pat quote page_id status =
     io_bind (cf_request be pat ''DELETE''
                (API_BASE base @ ''/content/'' @ page_id @ ''?status='' @ quote status ''/'') None)
       (\<lambda>_.
     io_return (JObj [(''message'', JStr (''Page '' @ page_id @ '' deleted'')), (''status'', JStr status)]))"

definition confluence_add_comment :: "upstream \<Rightarrow> string \<Rightarrow> string \<Rightarrow> string \<Rightarrow> string \<Rightarrow> json io" where
  "confluence_add_comment be base pat page_id html_content =
     io_bind (cf_request be pat ''POST'' (API_BASE base @ ''/content/'' @ page_id @ ''/child/comment'')
                (Some (JObj [(''type'', JStr ''comment''),
                             (''container'', JObj [(''id'', JStr page_id), (''type'', JStr ''page'')]),
                             (''body'', storage_body_html html_content)])))
       (\<lambda>created.
     io_bind (io_lift (get created ''id'')) (\<lambda>cid.
     io_return (JObj [(''message'', JStr ''Comment added''), (''id'', cid)])))"

definition confluence_get_comments :: "upstream \<Rightarrow> string \<Rightarrow> string \<Rightarrow> string \<Rightarrow> int \<Rightarrow> int \<Rightarrow> json io" where
  "confluence_get_comments be base pat page_id limit start =
     cf_request be pat ''GET''
       (API_BASE base @ ''/content/'' @ page_id @ ''/child/comment?expand=body.storage,version&limit=''
        @ str_int limit @ ''&start='' @ str_int start) None"

definition confluence_add_label :: "upstream \<Rightarrow> string \<Rightarrow> string \<Rightarrow> string \<Rightarrow> string list \<Rightarrow> json io" where
  "confluence_add_label be base pat page_id labels =
     io_bind (cf_request be pat ''POST'' (API_BASE base @ ''/content/'' @ page_id @ ''/label'')
                (Some (JArr (map (\<lambda>name. JObj [(''prefix'', JStr ''global''), (''name'', JStr name)])
                               labels))))
       (\<lambda>resp.
     io_return (JObj [(''message'', JStr (''Added '' @ str_nat (length labels) @ '' label(s)'')),
                      (''labels'', resp)]))"

definition confluence_get_labels :: "upstream \<Rightarrow> string \<Rightarrow> string \<Rightarrow> string \<Rightarrow> int \<Rightarrow> int \<Rightarrow> json io" where
  "confluence_get_labels be base pat page_id limit start =
     cf_request be pat ''GET''
       (API_BASE base @ ''/content/'' @ page_id @ ''/label?limit='' @ str_int limit @ ''&start=''
        @ str_int start) None"

definition confluence_get_page_children ::
  "upstream \<Rightarrow> string \<Rightarrow> string \<Rightarrow> string \<Rightarrow> int \<Rightarrow> int \<Rightarrow> bool \<Rightarrow> json io" where
  "confluence_get_page_children be base pat page_id limit start expand_body =
     (let expand = (if expand_body then ''body.storage,version'' else ''version'') in
      cf_request be pat ''GET''
        (API_BASE base @ ''/content/'' @ page_id @ ''/child/page?expand='' @ expand @ ''&limit=''
         @ str_int limit @ ''&start='' @ str_int start) None)"

definition confluence_search ::
  "upstream \<Rightarrow> string \<Rightarrow> string \<Rightarrow> (string \<Rightarrow> string \<Rightarrow> string) \<Rightarrow> string option \<Rightarrow> string option
     \<Rightarrow> int \<Rightarrow> int \<Rightarrow> bool \<Rightarrow> json io" where
  "confluence_search be base pat quote query cql limit start expand_body =
     (if given cql
      then cf_request be pat ''GET''
             (API_BASE base @ ''/search?cql='' @ quote (the cql) ''/'' @ ''&limit='' @ str_int limit
              @ ''&start='' @ str_int start
              @ (if expand_body then ''&expand='' @ ''body.storage'' else [])) None
      else if given query
      then (let safe = quote (the query) ''/'';
                cql_expr = ''text ~ '' @ [CHR 0x22] @ safe @ [CHR 0x22] @ '' OR title ~ '' @ [CHR 0x22]
                           @ safe @ [CHR 0x22]
            in cf_request be pat ''GET''
                 (API_BASE base @ ''/search?cql='' @ cql_expr @ ''&limit='' @ str_int limit
                  @ ''&start='' @ str_int start
                  @ (if expand_body then ''&expand=body.storage'' else [])) None)
      else io_raise (RuntimeError [Lit (''Provide either '' @ [CHR 0x27] @ ''query'' @ [CHR 0x27] @ '' or ''
                                        @ [CHR 0x27] @ ''cql'' @ [CHR 0x27] @ '' for search.'')]))"

section \<open>Vocabulary of the properties\<close>








text \<open>
  \<open>sends_between lo hi m\<close>: the call \<open>m\<close> only appends to the log, at most \<open>hi\<close> requests,
  and at least \<open>lo\<close> when it returns a value.
\<close>

definition sends_between :: "nat \<Rightarrow> nat \<Rightarrow> 'a io \<Rightarrow> bool" where
  "sends_between lo hi m =
     (\<forall>log0. case m log0 of
        (res, log) \<Rightarrow>
          prefix log0 log \<and> length log \<le> length log0 + hi
          \<and> (\<not> isl res \<longrightarrow> length log0 + lo \<le> length log))"

text \<open>
  The body an error is to carry according to the specification: the decoded JSON value
  when the body decodes, the raw text otherwise.
\<close>

definition best_effort_body :: "response \<Rightarrow> json" where
  "best_effort_body resp = (case resp_json resp of Some j \<Rightarrow> j | None \<Rightarrow> JStr (resp_text resp))"

text \<open>
  The version number a page representation shows, as \<^verbatim>\<open>confluence_update_page\<close> reads it:
  \<^verbatim>\<open>page.get("version", {}).get("number")\<close>.
\<close>

definition version_number :: "json \<Rightarrow> exn + json" where
  "version_number page = exn_bind (get_default page ''version'' (JObj [])) (\<lambda>v. get v ''number'')"



text \<open>\<open>yields P m\<close>: from every log, the call \<open>m\<close> returns a value, and the value satisfies \<open>P\<close>.\<close>

definition yields :: "('a \<Rightarrow> bool) \<Rightarrow> 'a io \<Rightarrow> bool" where
  "yields P m = (\<forall>log. case fst (m log) of Inl e \<Rightarrow> False | Inr x \<Rightarrow> P x)"

text \<open>The text of a message kept as pieces: each formatted value rendered in its place.\<close>

definition render :: "(json \<Rightarrow> string) \<Rightarrow> piece list \<Rightarrow> string" where
  "render repr ps = concat (map (\<lambda>p. case p of Lit s \<Rightarrow> s | Fmt v \<Rightarrow> py_format repr v) ps)"

section \<open>Sample inputs\<close>

text \<open>A runtime for the sample runs, none of which reaches a float.\<close>

definition sample_runtime :: runtime where
  "sample_runtime =
     \<lparr>float_of_int = (\<lambda>n. Inl OverflowError), float_plus = (\<lambda>x y. x), float_truthy = (\<lambda>x. True)\<rparr>"

text \<open>
  \<^verbatim>\<open>repr\<close> of Python on a decoded value that holds no float and whose strings are plain
  (printable ASCII, no quote, no backslash): a string between single quotes, the elements
  of a list and the entries of a dictionary separated by a comma and a space.
\<close>

definition quoted :: "string \<Rightarrow> string" where
  "quoted s = [CHR 0x27] @ s @ [CHR 0x27]"

fun join_comma :: "string list \<Rightarrow> string" where
  "join_comma [] = []"
| "join_comma [x] = x"
| "join_comma (x # y # ys) = x @ '', '' @ join_comma (y # ys)"

fun plain_repr :: "json \<Rightarrow> string" where
  "plain_repr JNull = ''None''"
| "plain_repr (JBool b) = (if b then ''True'' else ''False'')"
| "plain_repr (JNum n) = str_int n"
| "plain_repr (JFloat x) = ''float''"
| "plain_repr (JStr s) = quoted s"
| "plain_repr (JArr xs) = ''['' @ join_comma (map plain_repr xs) @ '']''"
| "plain_repr (JObj kvs) =
     ''{'' @ join_comma (map (\<lambda>kv. quoted (fst kv) @ '': '' @ plain_repr (snd kv)) kvs) @ ''}''"

definition ok_response :: response where
  "ok_response =
     \<lparr>resp_status_code = 200, resp_text = ''{...}'',
      resp_json = Some (JObj [(''object'', JObj [(''sha'', JStr ''c0'')]),
                              (''tree'', JObj [(''sha'', JStr ''t0'')]),
                              (''sha'', JStr ''s1'')])\<rparr>"

definition error_response :: response where
  "error_response =
     \<lparr>resp_status_code = 500, resp_text = ''boom'', resp_json = None\<rparr>"

text \<open>
  The answer of GitHub to a request for something that does not exist: the status 404 and
  the body \<^verbatim>\<open>{"message": "Not Found"}\<close>, which decodes to a dictionary of one entry.
\<close>

definition not_found_response :: response where
  "not_found_response =
     \<lparr>resp_status_code = 404,
      resp_text = ''{'' @ [CHR 0x22] @ ''message'' @ [CHR 0x22] @ '': '' @ [CHR 0x22] @ ''Not Found''
                  @ [CHR 0x22] @ ''}'',
      resp_json = Some (JObj [(''message'', JStr ''Not Found'')])\<rparr>"

text \<open>An answer 304 with no body: not a success status, and \<^verbatim>\<open>ok\<close> for the library.\<close>

definition not_modified_response :: response where
  "not_modified_response = \<lparr>resp_status_code = 304, resp_text = [], resp_json = None\<rparr>"

definition upstream_answering :: "response \<Rightarrow> upstream" where
  "upstream_answering resp hist rq = Inr resp"

definition upstream_failing_at :: "nat \<Rightarrow> upstream" where
  "upstream_failing_at n hist rq =
     (if length hist = n then Inr error_response else Inr ok_response)"

definition three_files :: "(string \<times> string) list list" where
  "three_files = [[(''path'', ''a.txt''), (''content'', ''A'')],
                  [(''path'', ''b.txt''), (''content'', ''B'')],
                  [(''path'', ''c.txt''), (''content'', ''C'')]]"

definition plain_request :: "request option" where
  "plain_request = Some \<lparr>headers = []\<rparr>"

definition readonly_request :: "request option" where
  "readonly_request = Some \<lparr>headers = [(''X-MCP-Readonly'', ''true'')]\<rparr>"

definition no_repr :: "json \<Rightarrow> string" where
  "no_repr v = ''?''"

text \<open>
  A wiki that holds one page at version 3: it answers the fetch with the page, and a
  write with the page at the version it was sent when \<open>echo\<close> holds, at version 9
  otherwise.
\<close>

definition page_response :: "json \<Rightarrow> response" where
  "page_response version =
     \<lparr>resp_status_code = 200, resp_text = ''{...}'',
      resp_json = Some (JObj [(''id'', JStr ''77''), (''title'', JStr ''Home''),
                              (''version'', JObj [(''number'', version)])])\<rparr>"

definition wiki_upstream :: "bool \<Rightarrow> upstream" where
  "wiki_upstream echo hist rq =
     (if req_method rq = ''GET'' then Inr (page_response (JNum 3))
      else if echo
      then (case req_json rq of
              None \<Rightarrow> Inr error_response
            | Some payload \<Rightarrow>
                (case version_number payload of
                   Inl _ \<Rightarrow> Inr error_response
                 | Inr v \<Rightarrow> Inr (page_response v)))
      else Inr (page_response (JNum 9)))"

definition null_version_response :: response where
  "null_version_response =
     \<lparr>resp_status_code = 200, resp_text = ''{...}'',
      resp_json = Some (JObj [(''id'', JStr ''77''), (''title'', JStr ''Home''),
                              (''version'', JNull)])\<rparr>"

definition unversioned_response :: response where
  "unversioned_response =
     \<lparr>resp_status_code = 200, resp_text = ''{...}'',
      resp_json = Some (JObj [(''id'', JStr ''77''), (''title'', JStr ''Home'')])\<rparr>"

definition sm_fallback_module :: sm_module where
  "sm_fallback_module =
     \<lparr>sm_GITHUB_TOKEN = Some ''pat'', sm_BASE_URL = ''https://api.github.com'',
      sm_user_tokens = Map.empty\<rparr>"

definition sm_bare_module :: sm_module where
  "sm_bare_module =
     \<lparr>sm_GITHUB_TOKEN = None, sm_BASE_URL = ''https://api.github.com'',
      sm_user_tokens = Map.empty\<rparr>"

definition oa_bare_module :: oa_module where
  "oa_bare_module = \<lparr>oa_BASE_URL = ''https://api.github.com'', oa_user_tokens = Map.empty\<rparr>"

definition oa_demo_module :: oa_module where
  "oa_demo_module =
     \<lparr>oa_BASE_URL = ''https://api.github.com'',
      oa_user_tokens = [''demo_user'' \<mapsto> ''tok'']\<rparr>"

section \<open>Properties of the calls\<close>

subsection \<open>Running a call\<close>

lemmas io_defs = io_bind_def io_lift_def io_return_def io_raise_def exn_bind_def

lemma io_bind_cases:
  assumes "io_bind m f log0 = (res, log)"
  obtains (raised) e where "m log0 = (Inl e, log)" "res = Inl e"
        | (went_on) x l1 where "m log0 = (Inr x, l1)" "f x l1 = (res, log)"
  using assms by (auto simp: io_bind_def split: prod.splits sum.splits)

lemma gh_github_request_log:
  assumes "gh_github_request be token meth u body log0 = (res, log)"
  shows "log = log0 @ [\<lparr>req_method = meth, req_url = u, req_headers = gh_HEADERS token, req_json = body\<rparr>]"
  using assms
  by (auto simp: gh_github_request_def io_defs requests_request_def split: sum.splits if_splits)




subsection \<open>A call stops at the first request that fails\<close>







subsection \<open>The order of the calls of the file push\<close>









text \<open>What the file push sends and returns when it returns a value.\<close>

lemma gh_push_multiple_files_result:
  assumes "gh_push_multiple_files be token repr owner repo branch files message rq log0 = (Inr r, log)"
  shows "\<exists>commit. r = JObj [(''message'', JStr (''Committed '' @ str_nat (length files) @ '' files'')),
                            (''commit'', commit)]"
  using assms unfolding gh_push_multiple_files_def
  by (elim io_bind_cases) (auto simp: io_return_def)

lemmas run_defs =
  io_defs requests_request_def response_json_def check_readonly_def headers_get_def lower_def
  lower_char_def dict_item_def py_format_def get_def version_number_def given_def resp_ok_def
  sample_runtime_def
  gh_github_request_def gh_HEADERS_def gh_BASE_URL_def
  ok_response_def error_response_def not_found_response_def upstream_answering_def
  upstream_failing_at_def three_files_def plain_request_def readonly_request_def no_repr_def

subsection \<open>The composite file push of server.py\<close>




lemma yields_weaken: "yields P m \<Longrightarrow> (\<And>x. P x \<Longrightarrow> Q x) \<Longrightarrow> yields Q m"
  unfolding yields_def by (auto split: sum.splits)








subsection \<open>Confluence: search and the versioned update\<close>

lemma cf_request_log:
  assumes "cf_request be pat meth u body log0 = (res, log)"
  shows "log = log0 @ [\<lparr>req_method = meth, req_url = u, req_headers = cf_HEADERS pat, req_json = body\<rparr>]"
  using assms
  by (auto simp: cf_request_def io_defs requests_request_def split: sum.splits if_splits)

text \<open>
  Claim C9. \<^verbatim>\<open>confluence_search\<close> called with neither \<^verbatim>\<open>query\<close> nor \<^verbatim>\<open>cql\<close> raises the
  \<^verbatim>\<open>RuntimeError\<close> that asks for one of them (the invalid-argument failure of the
  specification), and the log of requests is left as it was: no upstream call is made.
\<close>

theorem confluence_search_without_query:
  "confluence_search be base pat quote None None limit start expand_body log
   = (Inl (RuntimeError [Lit (''Provide either '' @ [CHR 0x27] @ ''query'' @ [CHR 0x27] @ '' or ''
                              @ [CHR 0x27] @ ''cql'' @ [CHR 0x27] @ '' for search.'')]), log)"
  by (simp add: confluence_search_def given_def io_raise_def)

text \<open>
  Claim C5, as amended. \<^verbatim>\<open>confluence_update_page\<close>, after its fetch of the page: when the
  fetch returns a page whose version number reads as a false value (no \<^verbatim>\<open>version\<close> entry,
  no \<^verbatim>\<open>number\<close> in it, \<^verbatim>\<open>None\<close>, zero, or empty), the tool raises the \<^verbatim>\<open>RuntimeError\<close> "Could
  not determine current version number for the page." (the failed precondition of the
  specification) and the fetch is the only request sent. When the fetch raises, the tool
  raises the same exception. Whenever the tool obtains no
  version number to increment, for whatever reason (the fetch fails, the lookup raises,
  the number reads as false, or one cannot be added to it), the tool raises and the fetch
  is the only request sent: the \<^verbatim>\<open>PUT\<close> is never issued.
\<close>

theorem confluence_update_page_version_undetermined:
  assumes "cf_request be pat ''GET'' (API_BASE base @ ''/content/'' @ page_id @ ''?expand=version'')
             None log0 = (fetched, log1)"
  shows "(\<forall>current v. fetched = Inr current \<longrightarrow> version_number current = Inr v \<longrightarrow> \<not> truthy rt v \<longrightarrow>
            confluence_update_page rt be base pat page_id new_title new_html_content minor_edit log0
            = (Inl (RuntimeError [Lit ''Could not determine current version number for the page.'']),
               log0 @ [\<lparr>req_method = ''GET'',
                        req_url = API_BASE base @ ''/content/'' @ page_id @ ''?expand=version'',
                        req_headers = cf_HEADERS pat, req_json = None\<rparr>]))
       \<and> (\<forall>e. fetched = Inl e \<longrightarrow>
            confluence_update_page rt be base pat page_id new_title new_html_content minor_edit log0
            = (Inl e,
               log0 @ [\<lparr>req_method = ''GET'',
                        req_url = API_BASE base @ ''/content/'' @ page_id @ ''?expand=version'',
                        req_headers = cf_HEADERS pat, req_json = None\<rparr>]))
       \<and> (\<not> (\<exists>current v n. fetched = Inr current \<and> version_number current = Inr v \<and> truthy rt v
                \<and> py_add rt v (JNum 1) = Inr n) \<longrightarrow>
            isl (fst (confluence_update_page rt be base pat page_id new_title new_html_content
                        minor_edit log0))
            \<and> snd (confluence_update_page rt be base pat page_id new_title new_html_content
                      minor_edit log0)
              = log0 @ [\<lparr>req_method = ''GET'',
                         req_url = API_BASE base @ ''/content/'' @ page_id @ ''?expand=version'',
                         req_headers = cf_HEADERS pat, req_json = None\<rparr>])"
proof -
  note l1 = cf_request_log[OF assms]
  show ?thesis
  proof (cases fetched)
    case (Inl e)
    with assms l1 show ?thesis
      by (simp add: confluence_update_page_def io_bind_def)
  next
    case (Inr current)
    show ?thesis
    proof (cases "version_number current")
      case (Inl e)
      with assms l1 Inr show ?thesis
        by (simp add: confluence_update_page_def io_bind_def io_lift_def version_number_def)
    next
      case v: (Inr v)
      show ?thesis
      proof (cases "truthy rt v")
        case False
        with v assms l1 Inr show ?thesis
          by (simp add: confluence_update_page_def io_bind_def io_lift_def io_raise_def
              version_number_def)
      next
        case True
        from v obtain kvs where cur: "current = JObj kvs"
          by (cases current) (simp_all add: version_number_def exn_bind_def)
        show ?thesis
        proof (cases "py_add rt v (JNum 1)")
          case (Inl e)
          with True v assms l1 Inr cur show ?thesis
            by (simp add: confluence_update_page_def io_bind_def io_lift_def io_raise_def
                version_number_def get_def)
        next
          case (Inr n)
          with True v \<open>fetched = Inr current\<close> show ?thesis by auto
        qed
      qed
    qed
  qed
qed

theorem confluence_update_page_version_undetermined_witness:
  "confluence_update_page sample_runtime (upstream_answering unversioned_response) ''https://wiki/''
     ''pat'' ''77'' None (Some ''text'') False []
   = (Inl (RuntimeError [Lit ''Could not determine current version number for the page.'']),
      [\<lparr>req_method = ''GET'', req_url = ''https://wiki/rest/api/content/77?expand=version'',
        req_headers = cf_HEADERS ''pat'', req_json = None\<rparr>])"
proof -
  have fetch:
    "cf_request (upstream_answering unversioned_response) ''pat'' ''GET''
       (API_BASE ''https://wiki/'' @ ''/content/'' @ ''77'' @ ''?expand=version'') None []
     = (Inr (JObj [(''id'', JStr ''77''), (''title'', JStr ''Home'')]),
        [\<lparr>req_method = ''GET'', req_url = ''https://wiki/rest/api/content/77?expand=version'',
          req_headers = cf_HEADERS ''pat'', req_json = None\<rparr>])"
    by (simp add: cf_request_def API_BASE_def rstrip_slash_def unversioned_response_def run_defs)
  from confluence_update_page_version_undetermined[OF fetch, where rt = sample_runtime
      and new_title = None and new_html_content = "Some ''text''" and minor_edit = False]
  show ?thesis
    by (simp add: version_number_def get_def exn_bind_def API_BASE_def rstrip_slash_def)
qed

text \<open>
  Claim C5 as stated fails where the version number cannot be determined and the error is
  another one: when the fetch itself is refused (status 500), the tool raises the error of
  the upstream; when the page has \<^verbatim>\<open>"version": null\<close>, the lookup raises \<open>AttributeError\<close>.
  In both runs the fetch is the only request sent.
\<close>

theorem confluence_update_page_other_errors_counterexample:
  "confluence_update_page sample_runtime (upstream_answering error_response) ''https://wiki/''
     ''pat'' ''77'' None (Some ''text'') False []
   = (Inl (RuntimeError [Lit ''Confluence API error '', Fmt (JNum 500), Lit '': '', Fmt (JStr ''boom'')]),
      [\<lparr>req_method = ''GET'', req_url = ''https://wiki/rest/api/content/77?expand=version'',
        req_headers = cf_HEADERS ''pat'', req_json = None\<rparr>])
   \<and> confluence_update_page sample_runtime (upstream_answering null_version_response)
       ''https://wiki/'' ''pat'' ''77'' None (Some ''text'') False []
   = (Inl (AttributeError ''get''),
      [\<lparr>req_method = ''GET'', req_url = ''https://wiki/rest/api/content/77?expand=version'',
        req_headers = cf_HEADERS ''pat'', req_json = None\<rparr>])
   \<and> RuntimeError [Lit ''Confluence API error '', Fmt (JNum 500), Lit '': '', Fmt (JStr ''boom'')]
       \<noteq> RuntimeError [Lit ''Could not determine current version number for the page.'']
   \<and> AttributeError ''get''
       \<noteq> RuntimeError [Lit ''Could not determine current version number for the page.'']"
  by (simp add: confluence_update_page_def cf_request_def API_BASE_def rstrip_slash_def
      null_version_response_def run_defs)

text \<open>
  Claim C4, as amended. When \<^verbatim>\<open>confluence_update_page\<close> returns a value, it has sent the
  fetch and then one \<^verbatim>\<open>PUT\<close>; the version number read from the fetched page is a number,
  and the \<^verbatim>\<open>PUT\<close> submits \<^verbatim>\<open>version + 1\<close> as Python computes it: exactly \<open>n + 1\<close> when the
  number read is an integer \<open>n\<close>, and the machine's float sum of it and one when it is a
  float. The version number in the value returned is the one read from the answer to the
  \<^verbatim>\<open>PUT\<close>: it is what the upstream reports.
\<close>

theorem confluence_update_page_increments:
  assumes "confluence_update_page rt be base pat page_id new_title new_html_content minor_edit log0
           = (Inr r, log)"
  shows "\<exists>current observed submitted ptitle updated uid utitle reported.
           cf_request be pat ''GET'' (API_BASE base @ ''/content/'' @ page_id @ ''?expand=version'')
             None log0
           = (Inr current,
              log0 @ [\<lparr>req_method = ''GET'',
                       req_url = API_BASE base @ ''/content/'' @ page_id @ ''?expand=version'',
                       req_headers = cf_HEADERS pat, req_json = None\<rparr>])
         \<and> version_number current = Inr observed
         \<and> py_add rt observed (JNum 1) = Inr submitted
         \<and> ((\<exists>n. int_value observed = Some n) \<or> (\<exists>x. observed = JFloat x))
         \<and> (\<forall>n. int_value observed = Some n \<longrightarrow> submitted = JNum (n + 1))
         \<and> (\<forall>x. observed = JFloat x \<longrightarrow>
               (\<exists>one. float_of_int rt 1 = Inr one \<and> submitted = JFloat (float_plus rt x one)))
         \<and> log = log0 @
             [\<lparr>req_method = ''GET'',
               req_url = API_BASE base @ ''/content/'' @ page_id @ ''?expand=version'',
               req_headers = cf_HEADERS pat, req_json = None\<rparr>,
              \<lparr>req_method = ''PUT'', req_url = API_BASE base @ ''/content/'' @ page_id,
               req_headers = cf_HEADERS pat,
               req_json = Some (JObj ([(''id'', JStr page_id), (''type'', JStr ''page''),
                                       (''title'', ptitle),
                                       (''version'', JObj [(''number'', submitted),
                                                           (''minorEdit'', JBool minor_edit)])]
                                      @ (case new_html_content of
                                           None \<Rightarrow> []
                                         | Some html \<Rightarrow> [(''body'', storage_body_html html)])))\<rparr>]
         \<and> be (log0 @ [\<lparr>req_method = ''GET'',
                          req_url = API_BASE base @ ''/content/'' @ page_id @ ''?expand=version'',
                          req_headers = cf_HEADERS pat, req_json = None\<rparr>])
               (last log) = Inr updated
         \<and> resp_ok updated
         \<and> version_number (if resp_text updated \<noteq> []
                            then (case resp_json updated of
                                    Some j \<Rightarrow> j
                                  | None \<Rightarrow> JObj [(''raw'', JStr (resp_text updated))])
                            else JObj []) = Inr reported
         \<and> r = JObj [(''message'', JStr ''Page updated''), (''id'', uid), (''title'', utitle),
                     (''version'', reported)]"
  using assms[unfolded confluence_update_page_def]
proof (cases rule: io_bind_cases)
  case (raised e)
  then show ?thesis by simp
next
  case f: (went_on current l1)
  note l1 = cf_request_log[OF f(1)]
  from f(2) show ?thesis
  proof (cases rule: io_bind_cases)
    case (raised e)
    then show ?thesis by simp
  next
    case v: (went_on version l2)
    from v(1) have l2: "l2 = l1" and vn: "version_number current = Inr version"
      by (simp_all add: io_lift_def version_number_def)
    have tr: "truthy rt version"
    proof (rule ccontr)
      assume "\<not> truthy rt version"
      with v(2) show False by (simp add: io_raise_def)
    qed
    with v(2) have rest:
      "io_bind (io_lift (if given new_title then Inr (JStr (the new_title)) else get current ''title''))
         (\<lambda>ptitle.
       io_bind (io_lift (py_add rt version (JNum 1))) (\<lambda>next_version.
       io_bind (cf_request be pat ''PUT'' (API_BASE base @ ''/content/'' @ page_id)
                  (Some (JObj ([(''id'', JStr page_id), (''type'', JStr ''page''), (''title'', ptitle),
                                (''version'', JObj [(''number'', next_version),
                                                    (''minorEdit'', JBool minor_edit)])]
                               @ (case new_html_content of
                                    None \<Rightarrow> []
                                  | Some html \<Rightarrow> [(''body'', storage_body_html html)])))))
         (\<lambda>updated.
       io_bind (io_lift (get updated ''id'')) (\<lambda>uid.
       io_bind (io_lift (get updated ''title'')) (\<lambda>utitle.
       io_bind (io_lift (exn_bind (get_default updated ''version'' (JObj [])) (\<lambda>v. get v ''number'')))
         (\<lambda>uversion.
       io_return (JObj [(''message'', JStr ''Page updated''), (''id'', uid), (''title'', utitle),
                        (''version'', uversion)]))))))) l2 = (Inr r, log)"
      by simp
    from rest show ?thesis
    proof (cases rule: io_bind_cases)
      case (raised e)
      then show ?thesis by simp
    next
      case t: (went_on ptitle l3)
      from t(1) have l3: "l3 = l2" by (simp add: io_lift_def)
      from t(2) show ?thesis
      proof (cases rule: io_bind_cases)
        case (raised e)
        then show ?thesis by simp
      next
        case a: (went_on next_version l4)
        from a(1) have l4: "l4 = l3" and add: "py_add rt version (JNum 1) = Inr next_version"
          by (simp_all add: io_lift_def)
        from add have n: "(\<exists>n. int_value version = Some n) \<or> (\<exists>x. version = JFloat x)"
          "\<forall>n. int_value version = Some n \<longrightarrow> next_version = JNum (n + 1)"
          "\<forall>x. version = JFloat x \<longrightarrow>
             (\<exists>one. float_of_int rt 1 = Inr one \<and> next_version = JFloat (float_plus rt x one))"
          by (cases version; auto simp: py_add_def exn_bind_def split: sum.splits if_splits)+
        from a(2) show ?thesis
        proof (cases rule: io_bind_cases)
          case (raised e)
          then show ?thesis by simp
        next
          case p: (went_on updated l5)
          note l5 = cf_request_log[OF p(1)]
          from p(1) l4 l3 l2 l1 obtain resp where resp:
            "be l1 \<lparr>req_method = ''PUT'', req_url = API_BASE base @ ''/content/'' @ page_id,
                     req_headers = cf_HEADERS pat,
                     req_json = Some (JObj ([(''id'', JStr page_id), (''type'', JStr ''page''),
                                       (''title'', ptitle),
                                       (''version'', JObj [(''number'', next_version),
                                                           (''minorEdit'', JBool minor_edit)])]
                                      @ (case new_html_content of
                                           None \<Rightarrow> []
                                         | Some html \<Rightarrow> [(''body'', storage_body_html html)])))\<rparr>
             = Inr resp" "resp_ok resp"
            "updated = (if resp_text resp \<noteq> []
                            then (case resp_json resp of
                                    Some j \<Rightarrow> j
                                  | None \<Rightarrow> JObj [(''raw'', JStr (resp_text resp))])
                            else JObj [])"
            by (auto simp: cf_request_def io_defs requests_request_def split: sum.splits if_splits)
          from p(2) obtain uid utitle reported where
            "version_number updated = Inr reported"
            "r = JObj [(''message'', JStr ''Page updated''), (''id'', uid), (''title'', utitle),
                     (''version'', reported)]" "log = l5"
            by (elim io_bind_cases) (auto simp: io_lift_def io_return_def version_number_def)
          with resp n add vn f(1) l1 l2 l3 l4 l5 show ?thesis
            by auto
        qed
      qed
    qed
  qed
qed

theorem confluence_update_page_increments_witness:
  "confluence_update_page sample_runtime (wiki_upstream True) ''https://wiki/'' ''pat'' ''77'' None (Some ''text'')
     False []
   = (Inr (JObj [(''message'', JStr ''Page updated''), (''id'', JStr ''77''),
                 (''title'', JStr ''Home''), (''version'', JNum 4)]),
      [\<lparr>req_method = ''GET'', req_url = ''https://wiki/rest/api/content/77?expand=version'',
        req_headers = cf_HEADERS ''pat'', req_json = None\<rparr>,
       \<lparr>req_method = ''PUT'', req_url = ''https://wiki/rest/api/content/77'',
        req_headers = cf_HEADERS ''pat'',
        req_json = Some (JObj [(''id'', JStr ''77''), (''type'', JStr ''page''),
                               (''title'', JStr ''Home''),
                               (''version'', JObj [(''number'', JNum 4), (''minorEdit'', JBool False)]),
                               (''body'', storage_body_html ''text'')])\<rparr>])"
proof -
  have run:
    "confluence_update_page sample_runtime (wiki_upstream True) ''https://wiki/'' ''pat'' ''77'' None (Some ''text'')
       False []
     = (Inr (JObj [(''message'', JStr ''Page updated''), (''id'', JStr ''77''),
                   (''title'', JStr ''Home''), (''version'', JNum 4)]),
        [\<lparr>req_method = ''GET'', req_url = ''https://wiki/rest/api/content/77?expand=version'',
          req_headers = cf_HEADERS ''pat'', req_json = None\<rparr>,
         \<lparr>req_method = ''PUT'', req_url = ''https://wiki/rest/api/content/77'',
          req_headers = cf_HEADERS ''pat'',
          req_json = Some (JObj [(''id'', JStr ''77''), (''type'', JStr ''page''),
                                 (''title'', JStr ''Home''),
                                 (''version'', JObj [(''number'', JNum 4), (''minorEdit'', JBool False)]),
                                 (''body'', storage_body_html ''text'')])\<rparr>])"
    by (simp add: confluence_update_page_def cf_request_def API_BASE_def rstrip_slash_def
        wiki_upstream_def page_response_def py_add_def run_defs)
  from confluence_update_page_increments[OF run] run show ?thesis by simp
qed

text \<open>
  Claim C4 as stated fails on the version returned: against an upstream that answers the
  fetch with version 3 and the write with version 9, the tool submits version 4 and
  returns version 9, which is not 3 + 1.
\<close>

theorem confluence_update_page_returned_version_counterexample:
  "confluence_update_page sample_runtime (wiki_upstream False) ''https://wiki/'' ''pat'' ''77'' None (Some ''text'')
     False []
   = (Inr (JObj [(''message'', JStr ''Page updated''), (''id'', JStr ''77''),
                 (''title'', JStr ''Home''), (''version'', JNum 9)]),
      [\<lparr>req_method = ''GET'', req_url = ''https://wiki/rest/api/content/77?expand=version'',
        req_headers = cf_HEADERS ''pat'', req_json = None\<rparr>,
       \<lparr>req_method = ''PUT'', req_url = ''https://wiki/rest/api/content/77'',
        req_headers = cf_HEADERS ''pat'',
        req_json = Some (JObj [(''id'', JStr ''77''), (''type'', JStr ''page''),
                               (''title'', JStr ''Home''),
                               (''version'', JObj [(''number'', JNum 4), (''minorEdit'', JBool False)]),
                               (''body'', storage_body_html ''text'')])\<rparr>])
   \<and> wiki_upstream False [] \<lparr>req_method = ''GET'',
          req_url = ''https://wiki/rest/api/content/77?expand=version'',
          req_headers = cf_HEADERS ''pat'', req_json = None\<rparr> = Inr (page_response (JNum 3))
   \<and> JNum 9 \<noteq> JNum (3 + 1)"
  by (simp add: confluence_update_page_def cf_request_def API_BASE_def rstrip_slash_def
      wiki_upstream_def page_response_def py_add_def run_defs)

subsection \<open>The readonly marker\<close>

lemma check_readonly_marked:
  "check_readonly readonly_request = Inl (HTTPException 403 ''Readonly mode enforced'')"
  by (simp add: run_defs)

text \<open>
  In \<^verbatim>\<open>server.py\<close> a mutating tool whose request is refused by \<^verbatim>\<open>check_readonly\<close> raises that
  exception and sends nothing.
\<close>

lemma gh_mutating_tools_refused:
  assumes "check_readonly rq = Inl e"
  shows "gh_create_branch be token owner repo new_branch base_branch rq log = (Inl e, log)"
    and "gh_create_or_update_file be token b64 owner repo branch path content message sha rq log
         = (Inl e, log)"
    and "gh_create_pull_request be token owner repo title head base body rq log = (Inl e, log)"
    and "gh_merge_pull_request be token owner repo pr_number commit_message rq log = (Inl e, log)"
    and "gh_push_multiple_files be token repr owner repo branch files message rq log = (Inl e, log)"
    and "gh_update_pr_branch be token owner repo pr_number rq log = (Inl e, log)"
  using assms
  by (simp_all add: gh_create_branch_def gh_create_or_update_file_def gh_create_pull_request_def
      gh_merge_pull_request_def gh_push_multiple_files_def gh_update_pr_branch_def
      io_bind_def io_lift_def)

text \<open>
  Claim C1, on the GitLab module. \<^verbatim>\<open>create_branch\<close> called on a request that carries
  \<^verbatim>\<open>X-MCP-Readonly: true\<close> does not raise the 403 of \<^verbatim>\<open>check_readonly\<close>: the name \<^verbatim>\<open>request\<close> is
  not bound in the tool, the call raises \<open>NameError\<close> (as it does whatever the headers
  are), and no request is sent.
\<close>

theorem gl_create_branch_readonly:
  "gl_create_branch be token base readonly_request project_id new_branch base_branch log
   = (Inl (NameError ''request''), log)"
  by (simp add: gl_create_branch_def gl_load_request_def gl_globals_def io_bind_def io_lift_def
      exn_bind_def)

subsection \<open>Errors of the upstream\<close>

text \<open>
  Claim C6, as amended. When the upstream answers with a status from 400 to 599 (the codes
  for which \<^verbatim>\<open>resp.ok\<close> is false), every request helper raises, and the exception carries
  the status code. \<^verbatim>\<open>cf_request\<close> carries the decoded body when the body decodes and the raw
  text otherwise; the helpers of \<^verbatim>\<open>server.py\<close> and of the GitLab module carry the raw text
  in every case; the helpers of \<^verbatim>\<open>sample.py\<close> and \<^verbatim>\<open>oauth.py\<close>, once a token is found, raise
  \<^verbatim>\<open>HTTPException(status_code, text)\<close>.
\<close>

theorem upstream_error_carried:
  assumes "\<And>rq. be log rq = Inr resp"
    and "400 \<le> resp_status_code resp" and "resp_status_code resp < 600"
  shows "cf_request be pat meth u body log
         = (Inl (RuntimeError [Lit ''Confluence API error '', Fmt (JNum (resp_status_code resp)),
                               Lit '': '', Fmt (best_effort_body resp)]),
            log @ [\<lparr>req_method = meth, req_url = u, req_headers = cf_HEADERS pat, req_json = body\<rparr>])
       \<and> gh_github_request be token meth u body log
         = (Inl (RuntimeError [Lit ''GitHub API error '', Fmt (JNum (resp_status_code resp)),
                               Lit '': '', Fmt (JStr (resp_text resp))]),
            log @ [\<lparr>req_method = meth, req_url = u, req_headers = gh_HEADERS token, req_json = body\<rparr>])
       \<and> gitlab_request be token meth u body log
         = (Inl (RuntimeError [Lit ''GitLab API error '', Fmt (JNum (resp_status_code resp)),
                               Lit '': '', Fmt (JStr (resp_text resp))]),
            log @ [\<lparr>req_method = meth, req_url = u, req_headers = gl_HEADERS token, req_json = body\<rparr>])
       \<and> (\<forall>hs. sm_get_auth_header smd user = Inr hs \<longrightarrow>
             sm_github_request smd be meth u user body log
             = (Inl (HTTPException (resp_status_code resp) (resp_text resp)),
                log @ [\<lparr>req_method = meth, req_url = u, req_headers = hs, req_json = body\<rparr>]))
       \<and> (\<forall>tok. oa_user_tokens oad usr = Some tok \<longrightarrow> tok \<noteq> [] \<longrightarrow>
             oa_github_request oad be usr meth u body log
             = (Inl (HTTPException (resp_status_code resp) (resp_text resp)),
                log @ [\<lparr>req_method = meth, req_url = oa_BASE_URL oad @ u,
                        req_headers = [(''Authorization'', ''Bearer '' @ tok),
                                       (''Accept'', ''application/vnd.github.v3+json'')],
                        req_json = body\<rparr>]))"
  using assms
  by (simp add: cf_request_def gh_github_request_def gitlab_request_def sm_github_request_def
      oa_github_request_def best_effort_body_def io_defs requests_request_def resp_ok_def)

theorem upstream_error_carried_witness:
  "cf_request (upstream_answering not_found_response) ''pat'' ''GET'' ''u'' None []
   = (Inl (RuntimeError [Lit ''Confluence API error '', Fmt (JNum 404), Lit '': '',
                         Fmt (JObj [(''message'', JStr ''Not Found'')])]),
      [\<lparr>req_method = ''GET'', req_url = ''u'', req_headers = cf_HEADERS ''pat'', req_json = None\<rparr>])
   \<and> gitlab_request (upstream_answering not_found_response) ''tok'' ''GET'' ''u'' None []
   = (Inl (RuntimeError [Lit ''GitLab API error '', Fmt (JNum 404), Lit '': '',
                         Fmt (JStr (resp_text not_found_response))]),
      [\<lparr>req_method = ''GET'', req_url = ''u'', req_headers = gl_HEADERS ''tok'', req_json = None\<rparr>])"
proof -
  have a: "\<And>rq. upstream_answering not_found_response [] rq = Inr not_found_response"
    by (simp add: upstream_answering_def)
  have b: "400 \<le> resp_status_code not_found_response" "resp_status_code not_found_response < 600"
    by (simp_all add: not_found_response_def)
  from upstream_error_carried[of "upstream_answering not_found_response" "[]" not_found_response
      "''pat''" "''GET''" "''u''" None "''tok''", OF a b]
  show ?thesis by (simp add: best_effort_body_def not_found_response_def)
qed

text \<open>
  Claim C6 as stated fails in two ways. An answer 304 is not a success status, and
  \<^verbatim>\<open>cf_request\<close> and \<^verbatim>\<open>github_request\<close> of \<^verbatim>\<open>server.py\<close> return the empty dictionary for it as a
  value. And for the answer 404 with the body \<^verbatim>\<open>{"message": "Not Found"}\<close>, which decodes
  to a dictionary, \<^verbatim>\<open>github_request\<close> of \<^verbatim>\<open>server.py\<close> raises the message
  \<^verbatim>\<open>GitHub API error 404: {"message": "Not Found"}\<close>, the raw text, which is not the message
  \<^verbatim>\<open>GitHub API error 404: {'message': 'Not Found'}\<close> that formatting the decoded dictionary
  gives.
\<close>

theorem gh_github_request_raw_text_counterexample:
  "cf_request (upstream_answering not_modified_response) ''pat'' ''GET'' ''u'' None []
   = (Inr (JObj []),
      [\<lparr>req_method = ''GET'', req_url = ''u'', req_headers = cf_HEADERS ''pat'', req_json = None\<rparr>])
   \<and> gh_github_request (upstream_answering not_modified_response) ''tok'' ''GET'' ''u'' None []
   = (Inr (JObj []),
      [\<lparr>req_method = ''GET'', req_url = ''u'', req_headers = gh_HEADERS ''tok'', req_json = None\<rparr>])
   \<and> fst (gh_github_request (upstream_answering not_found_response) ''tok'' ''GET'' ''u'' None [])
   = Inl (RuntimeError [Lit ''GitHub API error '', Fmt (JNum 404), Lit '': '',
                        Fmt (JStr (resp_text not_found_response))])
   \<and> render plain_repr [Lit ''GitHub API error '', Fmt (JNum 404), Lit '': '',
                        Fmt (JStr (resp_text not_found_response))]
   = ''GitHub API error 404: {'' @ [CHR 0x22] @ ''message'' @ [CHR 0x22] @ '': '' @ [CHR 0x22]
     @ ''Not Found'' @ [CHR 0x22] @ ''}''
   \<and> render plain_repr [Lit ''GitHub API error '', Fmt (JNum 404), Lit '': '',
                        Fmt (best_effort_body not_found_response)]
   = ''GitHub API error 404: {'' @ [CHR 0x27] @ ''message'' @ [CHR 0x27] @ '': '' @ [CHR 0x27]
     @ ''Not Found'' @ [CHR 0x27] @ ''}''
   \<and> render plain_repr [Lit ''GitHub API error '', Fmt (JNum 404), Lit '': '',
                        Fmt (JStr (resp_text not_found_response))]
     \<noteq> render plain_repr [Lit ''GitHub API error '', Fmt (JNum 404), Lit '': '',
                          Fmt (best_effort_body not_found_response)]"
  by (simp add: cf_request_def render_def best_effort_body_def not_modified_response_def quoted_def
      str_int_def str_nat.simps digit_char_def run_defs)

subsection \<open>Credentials\<close>

text \<open>
  Claim C7, as amended. In \<^verbatim>\<open>oauth.py\<close>, \<^verbatim>\<open>github_request\<close> for a principal with no stored token
  raises the 401 "User not authenticated" and sends nothing; so do \<^verbatim>\<open>weekly_digest\<close> and
  \<^verbatim>\<open>query_github\<close> on a query that matches a keyword. In \<^verbatim>\<open>sample.py\<close>, when the principal has
  no stored token and no fallback \<^verbatim>\<open>GITHUB_TOKEN\<close> is set, \<^verbatim>\<open>get_auth_header\<close> raises the 401
  "No GitHub token available", and \<^verbatim>\<open>github_request\<close>, \<^verbatim>\<open>get_contents\<close>, \<^verbatim>\<open>weekly_digest\<close>,
  \<^verbatim>\<open>query_github\<close> on a query that matches a keyword, and the mutating tools whose readonly
  check passes, raise it and send nothing.
\<close>

theorem unauthenticated_before_request:
  "(oa_user_tokens oad usr = None \<longrightarrow>
      oa_github_request oad be usr meth path body log
        = (Inl (HTTPException 401 ''User not authenticated''), log)
      \<and> oa_weekly_digest oad be repr week_ago usr log
        = (Inl (HTTPException 401 ''User not authenticated''), log)
      \<and> (str_in ''pull'' (lower q) \<or> str_in ''issue'' (lower q) \<or> str_in ''release'' (lower q) \<longrightarrow>
           oa_query_github oad be q usr log = (Inl (HTTPException 401 ''User not authenticated''), log)))
   \<and> (sm_user_tokens smd usr = None \<and> \<not> given (sm_GITHUB_TOKEN smd) \<longrightarrow>
      sm_get_auth_header smd (Some usr) = Inl (HTTPException 401 ''No GitHub token available'')
      \<and> sm_github_request smd be meth u (Some usr) body log
        = (Inl (HTTPException 401 ''No GitHub token available''), log)
      \<and> sm_get_contents smd be owner repo path ref (Some usr) log
        = (Inl (HTTPException 401 ''No GitHub token available''), log)
      \<and> sm_weekly_digest smd be repr week_ago usr log
        = (Inl (HTTPException 401 ''No GitHub token available''), log)
      \<and> (str_in ''pull'' (lower q) \<or> str_in ''issue'' (lower q) \<or> str_in ''release'' (lower q) \<longrightarrow>
           sm_query_github smd be q usr log
           = (Inl (HTTPException 401 ''No GitHub token available''), log))
      \<and> (check_readonly rq = Inr () \<longrightarrow>
           sm_create_branch smd be owner repo new_branch base_branch (Some usr) rq log
           = (Inl (HTTPException 401 ''No GitHub token available''), log)
           \<and> sm_create_or_update_file smd be b64 owner repo branch path content message sha
               (Some usr) rq log
           = (Inl (HTTPException 401 ''No GitHub token available''), log)
           \<and> sm_create_pull_request smd be owner repo title head base pr_body (Some usr) rq log
           = (Inl (HTTPException 401 ''No GitHub token available''), log)
           \<and> sm_merge_pull_request smd be owner repo pr_number commit_message (Some usr) rq log
           = (Inl (HTTPException 401 ''No GitHub token available''), log)))"
proof -
  have oa: "oa_github_request oad be usr m p b log
        = (Inl (HTTPException 401 ''User not authenticated''), log)"
    if "oa_user_tokens oad usr = None" for m p b
    using that by (simp add: oa_github_request_def io_raise_def)
  have hdr: "sm_get_auth_header smd (Some usr) = Inl (HTTPException 401 ''No GitHub token available'')"
    if "sm_user_tokens smd usr = None" "\<not> given (sm_GITHUB_TOKEN smd)"
    using that by (auto simp: sm_get_auth_header_def given_def Let_def split: option.splits)
  have sm: "sm_github_request smd be m p (Some usr) b log
        = (Inl (HTTPException 401 ''No GitHub token available''), log)"
    if "sm_user_tokens smd usr = None" "\<not> given (sm_GITHUB_TOKEN smd)" for m p b
    using hdr[OF that] by (simp add: sm_github_request_def io_bind_def io_lift_def)
  show ?thesis
    by (auto simp: oa sm hdr oa_weekly_digest_def oa_query_github_def sm_get_contents_def
        sm_weekly_digest_def sm_query_github_def sm_create_branch_def sm_create_or_update_file_def
        sm_create_pull_request_def sm_merge_pull_request_def io_bind_def io_lift_def)
qed

theorem unauthenticated_before_request_witness:
  "oa_weekly_digest oa_bare_module (upstream_answering ok_response) no_repr ''2026-01-01T00:00:00''
     ''demo_user'' []
   = (Inl (HTTPException 401 ''User not authenticated''), [])
   \<and> sm_get_contents sm_bare_module (upstream_answering ok_response) ''o'' ''r'' ''README.md''
       ''main'' (Some ''alice'') []
   = (Inl (HTTPException 401 ''No GitHub token available''), [])"
  using unauthenticated_before_request[where oad = oa_bare_module and usr = "''demo_user''"
      and be = "upstream_answering ok_response" and log = "[]" and repr = no_repr
      and week_ago = "''2026-01-01T00:00:00''"]
    unauthenticated_before_request[where smd = sm_bare_module and usr = "''alice''"
      and be = "upstream_answering ok_response" and log = "[]" and owner = "''o''"
      and repo = "''r''" and path = "''README.md''" and ref = "''main''"]
  by (simp add: oa_bare_module_def sm_bare_module_def given_def)

text \<open>
  Claim C7 as stated fails in \<^verbatim>\<open>sample.py\<close>: with the fallback \<^verbatim>\<open>GITHUB_TOKEN\<close> set, a call for
  a principal that has no stored token is not refused; the request is sent with the
  fallback token.
\<close>

theorem sm_fallback_token_counterexample:
  "sm_user_tokens sm_fallback_module ''alice'' = None
   \<and> sm_get_contents sm_fallback_module (upstream_answering ok_response) ''o'' ''r'' ''README.md''
       ''main'' (Some ''alice'') []
   = (Inr (JObj [(''object'', JObj [(''sha'', JStr ''c0'')]),
                 (''tree'', JObj [(''sha'', JStr ''t0'')]),
                 (''sha'', JStr ''s1'')]),
      [\<lparr>req_method = ''GET'',
        req_url = ''https://api.github.com/repos/o/r/contents/README.md?ref=main'',
        req_headers = [(''Authorization'', ''Bearer pat''),
                       (''Accept'', ''application/vnd.github.v3+json'')],
        req_json = None\<rparr>])"
  by (simp add: sm_fallback_module_def sm_get_contents_def sm_github_request_def
      sm_get_auth_header_def run_defs)

subsection \<open>The natural-language query\<close>

text \<open>
  Claim C8, as amended. \<^verbatim>\<open>query_github\<close> (in \<^verbatim>\<open>oauth.py\<close> and in \<^verbatim>\<open>sample.py\<close>) tries the
  keywords on the lower-cased query in the order \<^verbatim>\<open>pull\<close>, \<^verbatim>\<open>issue\<close>, \<^verbatim>\<open>release\<close>. A query that
  contains \<^verbatim>\<open>pull\<close> is the listing of the open pull requests, whatever else it contains; a
  query that contains \<^verbatim>\<open>issue\<close> and not \<^verbatim>\<open>pull\<close> is the listing of the open issues (with a
  stored token, the one request \<^verbatim>\<open>GET /repos/org/repo/issues?state=open\<close>); a query with none
  of the three keywords returns the message "Query not understood: ..." as a value and
  sends nothing.
\<close>

theorem query_github_dispatch:
  "(str_in ''pull'' (lower q) \<longrightarrow>
      oa_query_github oad be q usr
        = oa_github_request oad be usr ''GET'' ''/repos/org/repo/pulls?state=open'' None
      \<and> sm_query_github smd be q usr
        = sm_github_request smd be ''GET'' ''/repos/org/repo/pulls?state=open'' (Some usr) None)
   \<and> (str_in ''issue'' (lower q) \<and> \<not> str_in ''pull'' (lower q) \<longrightarrow>
      oa_query_github oad be q usr
        = oa_github_request oad be usr ''GET'' ''/repos/org/repo/issues?state=open'' None
      \<and> sm_query_github smd be q usr
        = sm_github_request smd be ''GET'' ''/repos/org/repo/issues?state=open'' (Some usr) None
      \<and> (\<forall>tok. oa_user_tokens oad usr = Some tok \<longrightarrow> tok \<noteq> [] \<longrightarrow>
            snd (oa_query_github oad be q usr log)
            = log @ [\<lparr>req_method = ''GET'',
                      req_url = oa_BASE_URL oad @ ''/repos/org/repo/issues?state=open'',
                      req_headers = [(''Authorization'', ''Bearer '' @ tok),
                                     (''Accept'', ''application/vnd.github.v3+json'')],
                      req_json = None\<rparr>]))
   \<and> (\<not> str_in ''pull'' (lower q) \<and> \<not> str_in ''issue'' (lower q) \<and> \<not> str_in ''release'' (lower q) \<longrightarrow>
      oa_query_github oad be q usr log
        = (Inr (JObj [(''message'', JStr (''Query not understood: '' @ q))]), log)
      \<and> sm_query_github smd be q usr log
        = (Inr (JObj [(''message'', JStr (''Query not understood: '' @ q))]), log))"
  by (auto simp: oa_query_github_def sm_query_github_def oa_github_request_def io_defs
      requests_request_def split: sum.splits)

theorem query_github_dispatch_witness:
  "str_in ''issue'' (lower ''List open ISSUES'')
   \<and> oa_query_github oa_demo_module (upstream_answering ok_response) ''List open ISSUES''
       ''demo_user'' []
   = (Inr (JObj [(''object'', JObj [(''sha'', JStr ''c0'')]),
                 (''tree'', JObj [(''sha'', JStr ''t0'')]),
                 (''sha'', JStr ''s1'')]),
      [\<lparr>req_method = ''GET'',
        req_url = ''https://api.github.com/repos/org/repo/issues?state=open'',
        req_headers = [(''Authorization'', ''Bearer tok''),
                       (''Accept'', ''application/vnd.github.v3+json'')],
        req_json = None\<rparr>])
   \<and> oa_query_github oa_bare_module (upstream_answering ok_response) ''hello'' ''demo_user'' []
   = (Inr (JObj [(''message'', JStr ''Query not understood: hello'')]), [])"
  using query_github_dispatch[where q = "''List open ISSUES''" and oad = oa_demo_module
      and be = "upstream_answering ok_response" and usr = "''demo_user''" and log = "[]"]
    query_github_dispatch[where q = "''hello''" and oad = oa_bare_module
      and be = "upstream_answering ok_response" and usr = "''demo_user''" and log = "[]"]
  by (simp add: oa_demo_module_def oa_bare_module_def oa_github_request_def run_defs)

text \<open>
  Claim C8 as stated fails on a query that contains both \<^verbatim>\<open>issue\<close> and \<^verbatim>\<open>pull\<close>: it is answered
  by the listing of the pull requests.
\<close>

theorem query_github_issue_and_pull_counterexample:
  "str_in ''issue'' (lower ''Issues on pull requests'')
   \<and> oa_query_github oa_demo_module (upstream_answering ok_response) ''Issues on pull requests''
       ''demo_user'' []
   = (Inr (JObj [(''object'', JObj [(''sha'', JStr ''c0'')]),
                 (''tree'', JObj [(''sha'', JStr ''t0'')]),
                 (''sha'', JStr ''s1'')]),
      [\<lparr>req_method = ''GET'',
        req_url = ''https://api.github.com/repos/org/repo/pulls?state=open'',
        req_headers = [(''Authorization'', ''Bearer tok''),
                       (''Accept'', ''application/vnd.github.v3+json'')],
        req_json = None\<rparr>])"
  by (simp add: oa_query_github_def oa_demo_module_def oa_github_request_def run_defs)

subsection \<open>How many requests a tool sends\<close>

lemma sends_betweenI:
  assumes "\<And>log0 res log. m log0 = (res, log) \<Longrightarrow>
             \<exists>new. log = log0 @ new \<and> length new \<le> hi \<and> (\<not> isl res \<longrightarrow> lo \<le> length new)"
  shows "sends_between lo hi m"
  unfolding sends_between_def
proof (intro allI)
  fix log0
  obtain res log where run: "m log0 = (res, log)" by (cases "m log0")
  from assms[OF run] run
  show "case m log0 of (res, log) \<Rightarrow>
          prefix log0 log \<and> length log \<le> length log0 + hi
          \<and> (\<not> isl res \<longrightarrow> length log0 + lo \<le> length log)"
    by auto
qed

lemma sends_betweenE:
  assumes "sends_between lo hi m" and "m log0 = (res, log)"
  obtains new where "log = log0 @ new" "length new \<le> hi" "\<not> isl res \<longrightarrow> lo \<le> length new"
proof -
  from assms(1)[unfolded sends_between_def, THEN spec, of log0] assms(2)
  have p: "prefix log0 log" and h: "length log \<le> length log0 + hi"
    and l: "\<not> isl res \<longrightarrow> length log0 + lo \<le> length log"
    by simp_all
  from p obtain new where "log = log0 @ new" by (auto simp: prefix_def)
  with h l that show ?thesis by simp
qed

lemma sends_return: "sends_between 0 0 (io_return x)"
  by (rule sends_betweenI) (simp add: io_return_def)

lemma sends_lift: "sends_between 0 0 (io_lift r)"
  by (rule sends_betweenI) (simp add: io_lift_def)

lemma sends_raise: "sends_between lo hi (io_raise e)"
  by (rule sends_betweenI) (auto simp: io_raise_def)

lemma sends_if:
  "sends_between lo hi a \<Longrightarrow> sends_between lo hi b \<Longrightarrow> sends_between lo hi (if c then a else b)"
  by simp

lemma sends_weaken:
  assumes "sends_between lo hi m" and "lo' \<le> lo" and "hi \<le> hi'"
  shows "sends_between lo' hi' m"
proof (rule sends_betweenI)
  fix log0 res log
  assume "m log0 = (res, log)"
  with assms(1) obtain new where "log = log0 @ new" "length new \<le> hi"
    "\<not> isl res \<longrightarrow> lo \<le> length new" by (rule sends_betweenE)
  with assms(2,3) show "\<exists>new. log = log0 @ new \<and> length new \<le> hi'
      \<and> (\<not> isl res \<longrightarrow> lo' \<le> length new)" by auto
qed

lemma sends_lift_bind:
  assumes "\<And>x. sends_between lo hi (f x)"
  shows "sends_between lo hi (io_bind (io_lift r) f)"
proof (cases r)
  case (Inl e)
  show ?thesis by (rule sends_betweenI) (auto simp: Inl io_bind_def io_lift_def)
next
  case (Inr x)
  have "io_bind (io_lift r) f = f x" by (rule ext) (simp add: Inr io_bind_def io_lift_def)
  with assms[of x] show ?thesis by simp
qed

lemma sends_one_bind:
  assumes "sends_between (Suc 0) (Suc 0) m" and "\<And>x. sends_between lo hi (f x)"
  shows "sends_between (Suc lo) (Suc hi) (io_bind m f)"
proof (rule sends_betweenI)
  fix log0 res log
  assume run: "io_bind m f log0 = (res, log)"
  from run show "\<exists>new. log = log0 @ new \<and> length new \<le> Suc hi
      \<and> (\<not> isl res \<longrightarrow> Suc lo \<le> length new)"
  proof (cases rule: io_bind_cases)
    case (raised e)
    from assms(1) raised(1) obtain new where "log = log0 @ new" "length new \<le> Suc 0"
      by (rule sends_betweenE)
    with raised(2) show ?thesis by auto
  next
    case (went_on x l1)
    from assms(1) went_on(1) obtain a where a: "l1 = log0 @ a" "length a \<le> Suc 0"
      "Suc 0 \<le> length a" by (rule sends_betweenE) simp
    from assms(2)[of x] went_on(2) obtain b where b: "log = l1 @ b" "length b \<le> hi"
      "\<not> isl res \<longrightarrow> lo \<le> length b" by (rule sends_betweenE)
    from a b show ?thesis by auto
  qed
qed

text \<open>The five request helpers send one request, or none when no token is found.\<close>

lemma sends_gh_github_request:
  "sends_between (Suc 0) (Suc 0) (gh_github_request be token meth u body)"
  by (rule sends_betweenI) (auto dest!: gh_github_request_log)

lemma gitlab_request_log:
  assumes "gitlab_request be token meth u body log0 = (res, log)"
  shows "log = log0 @ [\<lparr>req_method = meth, req_url = u, req_headers = gl_HEADERS token, req_json = body\<rparr>]"
  using assms
  by (auto simp: gitlab_request_def io_defs requests_request_def split: sum.splits if_splits)

lemma sends_gitlab_request:
  "sends_between (Suc 0) (Suc 0) (gitlab_request be token meth u body)"
  by (rule sends_betweenI) (auto dest!: gitlab_request_log)

lemma sends_cf_request:
  "sends_between (Suc 0) (Suc 0) (cf_request be pat meth u body)"
  by (rule sends_betweenI) (auto dest!: cf_request_log)

lemma sends_sm_github_request:
  "sends_between (Suc 0) (Suc 0) (sm_github_request md be meth u user body)"
  by (rule sends_betweenI)
     (auto simp: sm_github_request_def io_defs requests_request_def split: sum.splits if_splits)

lemma sends_oa_github_request:
  "sends_between (Suc 0) (Suc 0) (oa_github_request md be user meth path body)"
  by (rule sends_betweenI)
     (auto simp: oa_github_request_def io_defs requests_request_def
       split: sum.splits if_splits option.splits)

lemmas sends_rules =
  sends_lift_bind sends_if sends_raise sends_return sends_lift
  sends_one_bind[OF sends_gh_github_request] sends_one_bind[OF sends_gitlab_request]
  sends_one_bind[OF sends_cf_request] sends_one_bind[OF sends_sm_github_request]
  sends_one_bind[OF sends_oa_github_request]
  sends_gh_github_request sends_gitlab_request sends_cf_request sends_sm_github_request
  sends_oa_github_request

lemma sends_gh_tools:
  "sends_between (Suc (Suc 0)) (Suc (Suc 0)) (gh_create_branch be token owner repo new_branch base_branch rq)"
  "sends_between (Suc 0) (Suc 0)
     (gh_create_or_update_file be token b64 owner repo branch path content message sha rq)"
  "sends_between (Suc 0) (Suc 0) (gh_get_contents be token owner repo path ref)"
  "sends_between (Suc 0) (Suc 0) (gh_create_pull_request be token owner repo title head base body rq)"
  "sends_between (Suc 0) (Suc 0) (gh_merge_pull_request be token owner repo pr_number commit_message rq)"
  "sends_between (Suc 0) (Suc 0) (gh_update_pr_branch be token owner repo pr_number rq)"
  unfolding gh_create_branch_def gh_create_or_update_file_def gh_get_contents_def
    gh_create_pull_request_def gh_merge_pull_request_def gh_update_pr_branch_def
  by (intro sends_rules)+

lemma sends_sm_tools:
  "sends_between (Suc (Suc 0)) (Suc (Suc 0))
     (sm_create_branch md be owner repo new_branch base_branch user rq)"
  "sends_between (Suc 0) (Suc 0)
     (sm_create_or_update_file md be b64 owner repo branch path content message sha user rq)"
  "sends_between (Suc 0) (Suc 0) (sm_get_contents md be owner repo path ref user)"
  "sends_between (Suc 0) (Suc 0)
     (sm_create_pull_request md be owner repo title head base body user rq)"
  "sends_between (Suc 0) (Suc 0)
     (sm_merge_pull_request md be owner repo pr_number commit_message user rq)"
  "sends_between (Suc (Suc 0)) (Suc (Suc 0)) (sm_weekly_digest md be repr week_ago usr)"
  unfolding sm_create_branch_def sm_create_or_update_file_def sm_get_contents_def
    sm_create_pull_request_def sm_merge_pull_request_def sm_weekly_digest_def
  by (intro sends_rules)+

lemma sends_query_github:
  "sends_between 0 (Suc 0) (sm_query_github md be q usr)"
  "sends_between 0 (Suc 0) (oa_query_github oad be q usr)"
  unfolding sm_query_github_def oa_query_github_def
  by (intro sends_if sends_weaken[OF sends_sm_github_request] sends_weaken[OF sends_oa_github_request]
      sends_weaken[OF sends_return]; simp)+

lemma sends_oa_weekly_digest:
  "sends_between (Suc (Suc 0)) (Suc (Suc 0)) (oa_weekly_digest oad be repr week_ago usr)"
  unfolding oa_weekly_digest_def by (intro sends_rules)

lemma sends_gl_tools:
  "sends_between (Suc 0) (Suc 0) (gl_create_branch be token base bound project_id new_branch base_branch)"
  "sends_between (Suc 0) (Suc 0)
     (gl_create_or_update_file be token base bound quote project_id branch path content message sha)"
  "sends_between (Suc 0) (Suc 0) (gl_get_contents be token base quote project_id path ref)"
  "sends_between (Suc 0) (Suc 0)
     (gl_create_merge_request be token base bound project_id title source_branch target_branch description)"
  "sends_between (Suc 0) (Suc 0)
     (gl_merge_merge_request be token base bound project_id mr_iid merge_commit_message)"
  "sends_between (Suc 0) (Suc 0) (gl_update_mr_branch be token base bound project_id mr_iid)"
  unfolding gl_create_branch_def gl_create_or_update_file_def gl_get_contents_def
    gl_create_merge_request_def gl_merge_merge_request_def gl_update_mr_branch_def
  by (intro sends_rules)+

lemma sends_cf_tools:
  "sends_between (Suc 0) (Suc 0)
     (confluence_create_page rt be base pat space_key title html_content parent_page_id)"
  "sends_between (Suc 0) (Suc 0)
     (confluence_get_page rt be base pat quote opt_page_id opt_title opt_space_key expand_body)"
  "sends_between (Suc (Suc 0)) (Suc (Suc 0))
     (confluence_update_page rt be base pat page_id new_title new_html_content minor_edit)"
  "sends_between (Suc 0) (Suc 0) (confluence_delete_page be base pat quote page_id status)"
  "sends_between (Suc 0) (Suc 0) (confluence_add_comment be base pat page_id html_content)"
  "sends_between (Suc 0) (Suc 0) (confluence_get_comments be base pat page_id limit start)"
  "sends_between (Suc 0) (Suc 0) (confluence_add_label be base pat page_id labels)"
  "sends_between (Suc 0) (Suc 0) (confluence_get_labels be base pat page_id limit start)"
  "sends_between (Suc 0) (Suc 0)
     (confluence_get_page_children be base pat page_id limit start expand_body)"
  "sends_between (Suc 0) (Suc 0)
     (confluence_search be base pat quote query cql limit start expand_body)"
  unfolding confluence_create_page_def confluence_get_page_def confluence_update_page_def
    confluence_delete_page_def confluence_add_comment_def confluence_get_comments_def
    confluence_add_label_def confluence_get_labels_def confluence_get_page_children_def
    confluence_search_def Let_def
  by (intro sends_rules)+

text \<open>
  Claim C3, as amended. Leaving \<^verbatim>\<open>push_multiple_files\<close> aside, no tool sends more than two
  requests. \<^verbatim>\<open>create_branch\<close> of the two GitHub modules, \<^verbatim>\<open>confluence_update_page\<close> and
  \<^verbatim>\<open>weekly_digest\<close> send two requests when they return a value (a fetch, then the call that
  depends on it) and at most two when they raise; \<^verbatim>\<open>query_github\<close> sends at most one; every
  other tool sends one request when it returns a value and at most one when it raises.
\<close>

theorem tools_request_counts:
  "sends_between 2 2 (gh_create_branch be token owner repo new_branch base_branch rq)
   \<and> sends_between 2 2 (sm_create_branch smd be owner repo new_branch base_branch user rq)
   \<and> sends_between 2 2 (confluence_update_page rt be base pat page_id new_title new_html_content minor_edit)
   \<and> sends_between 2 2 (sm_weekly_digest smd be repr week_ago usr)
   \<and> sends_between 2 2 (oa_weekly_digest oad be repr week_ago usr)
   \<and> sends_between 0 1 (sm_query_github smd be q usr)
   \<and> sends_between 0 1 (oa_query_github oad be q usr)
   \<and> sends_between 1 1 (gh_create_or_update_file be token b64 owner repo branch path content message sha rq)
   \<and> sends_between 1 1 (gh_get_contents be token owner repo path ref)
   \<and> sends_between 1 1 (gh_create_pull_request be token owner repo title head base_ref pr_body rq)
   \<and> sends_between 1 1 (gh_merge_pull_request be token owner repo pr_number commit_message rq)
   \<and> sends_between 1 1 (gh_update_pr_branch be token owner repo pr_number rq)
   \<and> sends_between 1 1
       (sm_create_or_update_file smd be b64 owner repo branch path content message sha user rq)
   \<and> sends_between 1 1 (sm_get_contents smd be owner repo path ref user)
   \<and> sends_between 1 1 (sm_create_pull_request smd be owner repo title head base_ref pr_body user rq)
   \<and> sends_between 1 1 (sm_merge_pull_request smd be owner repo pr_number commit_message user rq)
   \<and> sends_between 1 1 (gl_create_branch be token base bound project_id new_branch base_branch)
   \<and> sends_between 1 1
       (gl_create_or_update_file be token base bound quote project_id branch path content message sha)
   \<and> sends_between 1 1 (gl_get_contents be token base quote project_id path ref)
   \<and> sends_between 1 1
       (gl_create_merge_request be token base bound project_id title source_branch target_branch
          description)
   \<and> sends_between 1 1 (gl_merge_merge_request be token base bound project_id mr_iid commit_message)
   \<and> sends_between 1 1 (gl_update_mr_branch be token base bound project_id mr_iid)
   \<and> sends_between 1 1 (confluence_create_page rt be base pat space_key title html_content parent_page_id)
   \<and> sends_between 1 1
       (confluence_get_page rt be base pat quote opt_page_id opt_title opt_space_key expand_body)
   \<and> sends_between 1 1 (confluence_delete_page be base pat quote page_id status)
   \<and> sends_between 1 1 (confluence_add_comment be base pat page_id html_content)
   \<and> sends_between 1 1 (confluence_get_comments be base pat page_id limit start)
   \<and> sends_between 1 1 (confluence_add_label be base pat page_id labels)
   \<and> sends_between 1 1 (confluence_get_labels be base pat page_id limit start)
   \<and> sends_between 1 1 (confluence_get_page_children be base pat page_id limit start expand_body)
   \<and> sends_between 1 1 (confluence_search be base pat quote query cql limit start expand_body)"
  unfolding One_nat_def numeral_2_eq_2
  by (intro conjI sends_gh_tools sends_sm_tools sends_query_github sends_oa_weekly_digest
      sends_gl_tools sends_cf_tools)

theorem tools_request_counts_witness:
  "gh_get_contents (upstream_answering ok_response) ''tok'' ''o'' ''r'' ''README.md'' ''main'' []
   = (Inr (JObj [(''object'', JObj [(''sha'', JStr ''c0'')]),
                 (''tree'', JObj [(''sha'', JStr ''t0'')]),
                 (''sha'', JStr ''s1'')]),
      [\<lparr>req_method = ''GET'',
        req_url = ''https://api.github.com/repos/o/r/contents/README.md?ref=main'',
        req_headers = gh_HEADERS ''tok'', req_json = None\<rparr>])
   \<and> length (snd (gh_create_branch (upstream_answering ok_response) ''tok'' ''o'' ''r'' ''feature''
                     ''main'' plain_request [])) \<le> 2"
proof -
  have "sends_between 2 2
          (gh_create_branch (upstream_answering ok_response) ''tok'' ''o'' ''r'' ''feature'' ''main''
             plain_request)"
    using tools_request_counts[where be = "upstream_answering ok_response" and token = "''tok''"
        and owner = "''o''" and repo = "''r''" and new_branch = "''feature''"
        and base_branch = "''main''" and rq = plain_request]
    by simp
  from this[unfolded sends_between_def, THEN spec, of "[]"]
  show ?thesis
    by (simp add: gh_get_contents_def run_defs split: prod.splits)
qed

text \<open>
  Claim C3 as stated fails on \<^verbatim>\<open>create_branch\<close> of \<^verbatim>\<open>server.py\<close>: one successful call sends two
  requests, the fetch of the base ref and the creation of the new ref.
\<close>

theorem gh_create_branch_two_requests_counterexample:
  "gh_create_branch (upstream_answering ok_response) ''tok'' ''o'' ''r'' ''feature'' ''main''
     plain_request []
   = (Inr (JObj [(''message'', JStr (''Branch '' @ [CHR 0x27] @ ''feature'' @ [CHR 0x27] @ '' created'')),
                 (''ref'', JObj [(''object'', JObj [(''sha'', JStr ''c0'')]),
                                 (''tree'', JObj [(''sha'', JStr ''t0'')]),
                                 (''sha'', JStr ''s1'')])]),
      [\<lparr>req_method = ''GET'', req_url = ''https://api.github.com/repos/o/r/git/ref/heads/main'',
        req_headers = gh_HEADERS ''tok'', req_json = None\<rparr>,
       \<lparr>req_method = ''POST'', req_url = ''https://api.github.com/repos/o/r/git/refs'',
        req_headers = gh_HEADERS ''tok'',
        req_json = Some (JObj [(''ref'', JStr ''refs/heads/feature''), (''sha'', JStr ''c0'')])\<rparr>])"
  by (simp add: gh_create_branch_def run_defs)

end
